theory Spec2Isabelle
  imports Main
begin

section \<open>The metrics-view aggregation query (runtime/queries/metricsview\_aggregation.go)\<close>

subsection \<open>Strings and formatting\<close>

text \<open>
  Go strings are byte strings: \<open>string\<close>. \<open>fmt_d\<close> is \<^verbatim>\<open>fmt.Sprintf("%d", i)\<close>,
  \<open>Join\<close> is \<^verbatim>\<open>strings.Join\<close>, \<open>TrimSpace\<close> is \<^verbatim>\<open>strings.TrimSpace\<close>.
\<close>

definition digit_char :: "int \<Rightarrow> char" where
  "digit_char n = ''0123456789'' ! nat n"

function digits :: "int \<Rightarrow> string" where
  "digits n = (if n < 10 then [digit_char n] else digits (n div 10) @ [digit_char (n mod 10)])"
  by pat_completeness auto
termination
  by (relation "measure nat") auto

declare digits.simps [simp del]

definition fmt_d :: "int \<Rightarrow> string" where
  "fmt_d i = (if i < 0 then CHR ''-'' # digits (- i) else digits i)"

fun Join :: "string list \<Rightarrow> string \<Rightarrow> string" where
  "Join [] sep = []"
| "Join [x] sep = x"
| "Join (x # y # ys) sep = x @ sep @ Join (y # ys) sep"

text \<open>
  \<^verbatim>\<open>strings.TrimSpace\<close> removes the leading and the trailing white space of a string,
  white space being the code points that \<^verbatim>\<open>unicode.IsSpace\<close> accepts: U+0009 to
  U+000D, U+0020, U+0085, U+00A0, U+1680, U+2000 to U+200A, U+2028, U+2029, U+202F,
  U+205F and U+3000. It decodes the string as UTF-8, forwards from the start and
  backwards from the end; a byte sequence that is not valid UTF-8 decodes to U+FFFD,
  which is not white space. \<open>whiteSpace\<close> lists the UTF-8 encodings of the white
  space. Each begins with a byte that is no continuation byte, so the string starts
  (ends) with a white-space code point exactly when one of the encodings is a prefix
  (suffix) of it. \<open>trimSpaces\<close> removes such prefixes as long as there is one;
  the trailing white space is removed as the prefixes of the reversed string.
\<close>

definition whiteSpace :: "string list" where
  "whiteSpace =
    [[CHR 0x09], [CHR 0x0A], [CHR 0x0B], [CHR 0x0C], [CHR 0x0D], [CHR 0x20],
     [CHR 0xC2, CHR 0x85], [CHR 0xC2, CHR 0xA0],
     [CHR 0xE1, CHR 0x9A, CHR 0x80],
     [CHR 0xE2, CHR 0x80, CHR 0x80], [CHR 0xE2, CHR 0x80, CHR 0x81],
     [CHR 0xE2, CHR 0x80, CHR 0x82], [CHR 0xE2, CHR 0x80, CHR 0x83],
     [CHR 0xE2, CHR 0x80, CHR 0x84], [CHR 0xE2, CHR 0x80, CHR 0x85],
     [CHR 0xE2, CHR 0x80, CHR 0x86], [CHR 0xE2, CHR 0x80, CHR 0x87],
     [CHR 0xE2, CHR 0x80, CHR 0x88], [CHR 0xE2, CHR 0x80, CHR 0x89],
     [CHR 0xE2, CHR 0x80, CHR 0x8A],
     [CHR 0xE2, CHR 0x80, CHR 0xA8], [CHR 0xE2, CHR 0x80, CHR 0xA9],
     [CHR 0xE2, CHR 0x80, CHR 0xAF],
     [CHR 0xE2, CHR 0x81, CHR 0x9F],
     [CHR 0xE3, CHR 0x80, CHR 0x80]]"

definition spaceWidth :: "string list \<Rightarrow> string \<Rightarrow> nat" where
  "spaceWidth encodings s =
    (case find (\<lambda>e. e \<noteq> [] \<and> take (length e) s = e) encodings of
       None \<Rightarrow> 0
     | Some e \<Rightarrow> length e)"

function trimSpaces :: "string list \<Rightarrow> string \<Rightarrow> string" where
  "trimSpaces encodings s =
    (if spaceWidth encodings s = 0 then s
     else trimSpaces encodings (drop (spaceWidth encodings s) s))"
  by pat_completeness auto
termination
proof (relation "measure (\<lambda>(encodings, s). length s)")
  show "wf (measure (\<lambda>(encodings, s). length s))" by simp
next
  fix encodings :: "string list" and s :: string
  assume w: "spaceWidth encodings s \<noteq> 0"
  have "s \<noteq> []"
  proof
    assume "s = []"
    then have "find (\<lambda>e. e \<noteq> [] \<and> take (length e) s = e) encodings = None"
      by (auto simp: find_None_iff)
    with w show False by (simp add: spaceWidth_def)
  qed
  with w show "((encodings, drop (spaceWidth encodings s) s), (encodings, s))
               \<in> measure (\<lambda>(encodings, s). length s)"
    by simp
qed

declare trimSpaces.simps [simp del]

definition TrimSpace :: "string \<Rightarrow> string" where
  "TrimSpace s = rev (trimSpaces (map rev whiteSpace) (rev (trimSpaces whiteSpace s)))"

subsection \<open>Data model\<close>

text \<open>
  The dialect enumeration of the drivers package and the protobuf messages of the
  request are declared outside this file of the source; they are modelled with the
  fields that the code reads. A protobuf enum is an int32 whose zero value is the
  \<^verbatim>\<open>..._UNSPECIFIED\<close> member, and the switch over the builtin measure has a default
  branch for values outside the enumeration, so the enums are integers here.
\<close>

datatype Dialect = DialectUnspecified | DialectDuckDB | DialectDruid

definition TIME_GRAIN_UNSPECIFIED :: int where "TIME_GRAIN_UNSPECIFIED = 0"
definition BUILTIN_MEASURE_UNSPECIFIED :: int where "BUILTIN_MEASURE_UNSPECIFIED = 0"
definition BUILTIN_MEASURE_COUNT :: int where "BUILTIN_MEASURE_COUNT = 1"
definition BUILTIN_MEASURE_COUNT_DISTINCT :: int where "BUILTIN_MEASURE_COUNT_DISTINCT = 2"

text \<open>Go's \<^verbatim>\<open>any\<close>, for the values that occur as query arguments and scanned cells.\<close>

datatype any_val = StringValue string | NumberValue int | BoolValue bool | NullValue

fun GetStringValue :: "any_val \<Rightarrow> string" where
  "GetStringValue (StringValue s) = s"
| "GetStringValue _ = []"

record MetricsViewAggregationDimension =
  d_Name :: string
  d_TimeGrain :: int
  d_TimeZone :: string

record MetricsViewAggregationMeasure =
  m_Name :: string
  m_BuiltinMeasure :: int
  m_BuiltinMeasureArgs :: "any_val list"

record MetricsViewAggregationSort =
  s_Name :: string
  s_Desc :: bool

text \<open>
  Modelled from the spec: the metrics view specification and its declared dimensions, whose
  type declarations are outside the source shown. The spec gives a view a physical table
  name, an optional time-dimension column name and declared dimensions with a name and an
  optional computed expression; the code reads \<^verbatim>\<open>Table\<close>, \<^verbatim>\<open>TimeDimension\<close> and a
  dimension's \<^verbatim>\<open>Expression\<close>, everything else goes through the resolver functions.
\<close>

record MetricsViewSpec_Dimension =
  dim_Name :: string
  dim_Column :: string
  dim_Expression :: string
  dim_Unnest :: bool

record MetricsViewSpec =
  Table :: string
  TimeDimension :: string
  mv_Dimensions :: "MetricsViewSpec_Dimension list"

record ResolvedMetricsViewSecurity =
  RowFilter :: string

text \<open>
  The request. The time range, the expression trees, the legacy filter, the result schema
  and the result rows are protobuf messages that this file only passes on: type
  parameters \<open>'tr\<close>, \<open>'ex\<close>, \<open>'flt\<close>, \<open>'schema\<close>, \<open>'struct\<close>. A nil pointer is
  \<open>None\<close>. \<^verbatim>\<open>MetricsView\<close> is dereferenced without a check by \<^verbatim>\<open>Resolve\<close>, the
  caller sets it: it is a plain field.
\<close>

record ('tr, 'ex, 'flt, 'schema, 'struct) MetricsViewAggregation =
  MetricsViewName :: string
  Dimensions :: "MetricsViewAggregationDimension list"
  Measures :: "MetricsViewAggregationMeasure list"
  Sort :: "MetricsViewAggregationSort list"
  TimeRange :: "'tr option"
  Where :: "'ex option"
  Having :: "'ex option"
  Priority :: int
  Limit :: "int option"
  Offset :: int
  MetricsView :: MetricsViewSpec
  ResolvedMVSecurity :: "ResolvedMetricsViewSecurity option"
  PivotOn :: "string list"
  Filter :: "'flt option"
  Result :: "('schema \<times> 'struct list) option"

definition maxPivotCells :: int where
  "maxPivotCells = 1000000"

subsection \<open>Errors\<close>

text \<open>
  One constructor for each error that the file creates; \<open>External\<close> is an error that a
  collaborator (a resolver function, the backend, the local engine) returned.
\<close>

datatype error =
    NoDimensionsOrMeasures
  | BuiltinMeasureExpectsOneArgument int
  | BuiltinMeasureExpectsNonEmptyString int any_val
  | UnknownBuiltinMeasure int
  | OffsetNotSupportedForPivot
  | ExpressionDimensionNotSupportedAsTimeColumn
  | UnsupportedDialect Dialect
  | NotAvailableForDialect Dialect
  | NoTimeDimension
  | BothFilterAndWhere
  | ErrorBuildingQuery error
  | PivotCellsCountExceeded int
  | PivotCellsCountLimitExceeded int
  | CannotObtainDriverConn
  | External string

subsection \<open>Functions of the package that are defined in other files\<close>

text \<open>
  The builder calls functions of the same package whose definitions are in other files.
  They are parameters of the model, collected in one record; every theorem holds for all
  of them. \<open>timeRangeClause\<close> appends to the argument list it is given a pointer to, so
  it returns the new list.
\<close>

record ('tr, 'ex, 'flt) helpers =
  safeName :: "string \<Rightarrow> string"
  metricsViewDimension :: "MetricsViewSpec \<Rightarrow> string \<Rightarrow> error + MetricsViewSpec_Dimension"
  dimensionSelect :: "MetricsViewSpec \<Rightarrow> MetricsViewSpec_Dimension \<Rightarrow> Dialect \<Rightarrow> string \<times> string"
  metricsViewDimensionExpression :: "MetricsViewSpec_Dimension \<Rightarrow> string"
  metricsViewMeasureExpression :: "MetricsViewSpec \<Rightarrow> string \<Rightarrow> error + string"
  timeRangeClause :: "'tr option \<Rightarrow> MetricsViewSpec \<Rightarrow> Dialect \<Rightarrow> string \<Rightarrow> any_val list
                        \<Rightarrow> error + (string \<times> any_val list)"
  buildExpression :: "MetricsViewSpec \<Rightarrow> 'ex \<Rightarrow> Dialect \<Rightarrow> error + (string \<times> any_val list)"
  convertToDateTruncSpecifier :: "int \<Rightarrow> string"
  convertToDruidTimeFloorSpecifier :: "int \<Rightarrow> string"
  isTimeRangeNil :: "'tr option \<Rightarrow> bool"
  convertFilterToExpression :: "'flt \<Rightarrow> 'ex option"

subsection \<open>The builder\<close>

definition cols :: "('tr, 'ex, 'flt, 'schema, 'struct) MetricsViewAggregation \<Rightarrow> int" where
  "cols q = int (length (Dimensions q)) + int (length (Measures q))"

definition buildTimestampExpr ::
  "('tr, 'ex, 'flt) helpers \<Rightarrow> ('tr, 'ex, 'flt, 'schema, 'struct) MetricsViewAggregation
   \<Rightarrow> MetricsViewAggregationDimension \<Rightarrow> Dialect \<Rightarrow> error + (string \<times> any_val list)" where
  "buildTimestampExpr h q dim dialect =
    (case (if d_Name dim = TimeDimension (MetricsView q) then Inr (safeName h (d_Name dim))
           else (case metricsViewDimension h (MetricsView q) (d_Name dim) of
                   Inl e \<Rightarrow> Inl e
                 | Inr d \<Rightarrow> if dim_Expression d \<noteq> []
                            then Inl ExpressionDimensionNotSupportedAsTimeColumn
                            else Inr (metricsViewDimensionExpression h d))) of
       Inl e \<Rightarrow> Inl e
     | Inr col \<Rightarrow>
       (case dialect of
          DialectDuckDB \<Rightarrow>
            if d_TimeZone dim = [] \<or> d_TimeZone dim = ''UTC''
            then Inr (''date_trunc('' @ [CHR 0x27] @ convertToDateTruncSpecifier h (d_TimeGrain dim)
                      @ [CHR 0x27] @ '', '' @ col @ '')'', [])
            else Inr (''timezone(?, date_trunc('' @ [CHR 0x27]
                      @ convertToDateTruncSpecifier h (d_TimeGrain dim) @ [CHR 0x27]
                      @ '', timezone(?, '' @ col @ ''::TIMESTAMPTZ)))'',
                      [StringValue (d_TimeZone dim), StringValue (d_TimeZone dim)])
        | DialectDruid \<Rightarrow>
            if d_TimeZone dim = [] \<or> d_TimeZone dim = ''UTC''
            then Inr (''date_trunc('' @ [CHR 0x27] @ convertToDateTruncSpecifier h (d_TimeGrain dim)
                      @ [CHR 0x27] @ '', '' @ col @ '')'', [])
            else Inr (''time_floor('' @ col @ '', '' @ [CHR 0x27]
                      @ convertToDruidTimeFloorSpecifier h (d_TimeGrain dim) @ [CHR 0x27]
                      @ '', null, CAST(? AS VARCHAR)))'', [StringValue (d_TimeZone dim)])
        | DialectUnspecified \<Rightarrow> Inl (UnsupportedDialect dialect)))"

text \<open>
  The loop over the requested dimensions (lines 418--446). The state of the loop is
  \<^verbatim>\<open>selectCols\<close>, \<^verbatim>\<open>groupCols\<close>, \<^verbatim>\<open>unnestClauses\<close> and \<^verbatim>\<open>args\<close>.
\<close>

fun dimensionLoop ::
  "('tr, 'ex, 'flt) helpers \<Rightarrow> ('tr, 'ex, 'flt, 'schema, 'struct) MetricsViewAggregation
   \<Rightarrow> MetricsViewSpec \<Rightarrow> Dialect \<Rightarrow> MetricsViewAggregationDimension list
   \<Rightarrow> string list \<times> string list \<times> string list \<times> any_val list
   \<Rightarrow> error + (string list \<times> string list \<times> string list \<times> any_val list)" where
  "dimensionLoop h q mv dialect [] st = Inr st"
| "dimensionLoop h q mv dialect (d # ds) (selectCols, groupCols, unnestClauses, args) =
    (if d_TimeGrain d = TIME_GRAIN_UNSPECIFIED then
       (case metricsViewDimension h mv (d_Name d) of
          Inl e \<Rightarrow> Inl e
        | Inr dim \<Rightarrow>
            (case dimensionSelect h mv dim dialect of
               (dimSel, unnestClause) \<Rightarrow>
                 dimensionLoop h q mv dialect ds
                   (selectCols @ [dimSel],
                    groupCols @ [fmt_d (int (length (selectCols @ [dimSel])))],
                    (if unnestClause \<noteq> [] then unnestClauses @ [unnestClause] else unnestClauses),
                    args)))
     else
       (case buildTimestampExpr h q d dialect of
          Inl e \<Rightarrow> Inl e
        | Inr (expr, exprArgs) \<Rightarrow>
            dimensionLoop h q mv dialect ds
              (selectCols @ [expr @ '' as '' @ safeName h (d_Name d)],
               groupCols @ [fmt_d (int (length (selectCols @ [expr @ '' as '' @ safeName h (d_Name d)])))],
               unnestClauses,
               args @ exprArgs)))"

text \<open>The loop over the requested measures (lines 448--471).\<close>

fun measureLoop ::
  "('tr, 'ex, 'flt) helpers \<Rightarrow> MetricsViewSpec \<Rightarrow> MetricsViewAggregationMeasure list
   \<Rightarrow> string list \<Rightarrow> error + string list" where
  "measureLoop h mv [] selectCols = Inr selectCols"
| "measureLoop h mv (m # ms) selectCols =
    (if m_BuiltinMeasure m = BUILTIN_MEASURE_UNSPECIFIED then
       (case metricsViewMeasureExpression h mv (m_Name m) of
          Inl e \<Rightarrow> Inl e
        | Inr expr \<Rightarrow> measureLoop h mv ms (selectCols @ [expr @ '' as '' @ safeName h (m_Name m)]))
     else if m_BuiltinMeasure m = BUILTIN_MEASURE_COUNT then
       measureLoop h mv ms (selectCols @ [''COUNT(*) as '' @ safeName h (m_Name m)])
     else if m_BuiltinMeasure m = BUILTIN_MEASURE_COUNT_DISTINCT then
       (case m_BuiltinMeasureArgs m of
          [a] \<Rightarrow>
            if GetStringValue a = []
            then Inl (BuiltinMeasureExpectsNonEmptyString (m_BuiltinMeasure m) a)
            else measureLoop h mv ms
                   (selectCols @ [''COUNT(DISTINCT '' @ safeName h (GetStringValue a) @ '') as ''
                                  @ safeName h (m_Name m)])
        | _ \<Rightarrow> Inl (BuiltinMeasureExpectsOneArgument (m_BuiltinMeasure m)))
     else Inl (UnknownBuiltinMeasure (m_BuiltinMeasure m)))"

text \<open>
  The WHERE clause (lines 478--502): the time-range predicate is what
  \<^verbatim>\<open>timeRangeClause\<close> returns, asked for only when the view has a time dimension.
\<close>

definition timeRangeStep ::
  "('tr, 'ex, 'flt) helpers \<Rightarrow> ('tr, 'ex, 'flt, 'schema, 'struct) MetricsViewAggregation
   \<Rightarrow> MetricsViewSpec \<Rightarrow> Dialect \<Rightarrow> any_val list \<Rightarrow> error + (string \<times> any_val list)" where
  "timeRangeStep h q mv dialect args =
    (if TimeDimension mv \<noteq> []
     then timeRangeClause h (TimeRange q) mv dialect (safeName h (TimeDimension mv)) args
     else Inr ([], args))"

definition whereExprStep ::
  "('tr, 'ex, 'flt) helpers \<Rightarrow> ('tr, 'ex, 'flt, 'schema, 'struct) MetricsViewAggregation
   \<Rightarrow> MetricsViewSpec \<Rightarrow> Dialect \<Rightarrow> error + (string \<times> any_val list)" where
  "whereExprStep h q mv dialect =
    (case Where q of
       None \<Rightarrow> Inr ([], [])
     | Some ex \<Rightarrow>
         (case buildExpression h mv ex dialect of
            Inl e \<Rightarrow> Inl e
          | Inr (clause, clauseArgs) \<Rightarrow>
              Inr ((if TrimSpace clause \<noteq> [] then '' AND '' @ clause else []), clauseArgs)))"

definition rowFilterStep :: "ResolvedMetricsViewSecurity option \<Rightarrow> string" where
  "rowFilterStep policy =
    (case policy of
       None \<Rightarrow> []
     | Some p \<Rightarrow> if RowFilter p \<noteq> [] then '' AND ('' @ RowFilter p @ '')'' else [])"

definition whereStep ::
  "('tr, 'ex, 'flt) helpers \<Rightarrow> ('tr, 'ex, 'flt, 'schema, 'struct) MetricsViewAggregation
   \<Rightarrow> MetricsViewSpec \<Rightarrow> Dialect \<Rightarrow> ResolvedMetricsViewSecurity option \<Rightarrow> any_val list
   \<Rightarrow> error + (string \<times> any_val list)" where
  "whereStep h q mv dialect policy args0 =
    (case timeRangeStep h q mv dialect args0 of
       Inl e \<Rightarrow> Inl e
     | Inr (timeClause, args1) \<Rightarrow>
         (case whereExprStep h q mv dialect of
            Inl e \<Rightarrow> Inl e
          | Inr (exprClause, clauseArgs) \<Rightarrow>
              (let whereClause = timeClause @ exprClause @ rowFilterStep policy
               in Inr ((if length whereClause > 0 then ''WHERE 1=1'' @ whereClause else whereClause),
                       args1 @ clauseArgs))))"

text \<open>The HAVING clause (lines 504--516).\<close>

definition havingStep ::
  "('tr, 'ex, 'flt) helpers \<Rightarrow> ('tr, 'ex, 'flt, 'schema, 'struct) MetricsViewAggregation
   \<Rightarrow> MetricsViewSpec \<Rightarrow> Dialect \<Rightarrow> any_val list \<Rightarrow> error + (string \<times> any_val list)" where
  "havingStep h q mv dialect args =
    (case Having q of
       None \<Rightarrow> Inr ([], args)
     | Some ex \<Rightarrow>
         (case buildExpression h mv ex dialect of
            Inl e \<Rightarrow> Inl e
          | Inr (havingClause, havingClauseArgs) \<Rightarrow>
              Inr ((if TrimSpace havingClause \<noteq> [] then ''HAVING '' @ havingClause else havingClause),
                   args @ havingClauseArgs)))"

text \<open>The ORDER BY clause (lines 518--532).\<close>

definition sortCriterion ::
  "('tr, 'ex, 'flt) helpers \<Rightarrow> Dialect \<Rightarrow> MetricsViewAggregationSort \<Rightarrow> string" where
  "sortCriterion h dialect s =
     safeName h (s_Name s) @ (if s_Desc s then '' DESC'' else [])
       @ (if dialect = DialectDuckDB then '' NULLS LAST'' else [])"

definition orderStep ::
  "('tr, 'ex, 'flt) helpers \<Rightarrow> Dialect \<Rightarrow> MetricsViewAggregationSort list \<Rightarrow> string" where
  "orderStep h dialect sorts =
    (let sortingCriteria = map (sortCriterion h dialect) sorts
     in if length sortingCriteria > 0 then ''ORDER BY '' @ Join sortingCriteria '', '' else [])"

text \<open>
  The LIMIT clause (lines 534--540, and 325--331 of \<^verbatim>\<open>createPivotSQL\<close>): the request
  holds a pointer to the limit, and a limit of 0 is overwritten through it. The step
  returns the clause and the request after the assignment.
\<close>

definition limitStep ::
  "('tr, 'ex, 'flt, 'schema, 'struct) MetricsViewAggregation
   \<Rightarrow> string \<times> ('tr, 'ex, 'flt, 'schema, 'struct) MetricsViewAggregation" where
  "limitStep q =
    (case Limit q of
       None \<Rightarrow> ([], q)
     | Some l \<Rightarrow>
         if l = 0 then (''LIMIT '' @ fmt_d 100, q\<lparr>Limit := Some 100\<rparr>)
         else (''LIMIT '' @ fmt_d l, q))"

text \<open>
  The clauses of the base query, as they stand when the builder reaches its final
  \<^verbatim>\<open>Sprintf\<close>.
\<close>

record clauses =
  selectCols :: "string list"
  unnestClauses :: "string list"
  whereClause :: string
  groupClause :: string
  havingClause :: string
  orderClause :: string
  limitClause :: string
  queryArgs :: "any_val list"

text \<open>
  Lines 408--549: everything before the final \<^verbatim>\<open>Sprintf\<close>. The request is returned
  with the result, also when the result is an error, since the assignment to the limit
  is visible to the caller on every path that passes it.
\<close>

definition buildClauses ::
  "('tr, 'ex, 'flt) helpers \<Rightarrow> ('tr, 'ex, 'flt, 'schema, 'struct) MetricsViewAggregation
   \<Rightarrow> MetricsViewSpec \<Rightarrow> Dialect \<Rightarrow> ResolvedMetricsViewSecurity option
   \<Rightarrow> (error + clauses) \<times> ('tr, 'ex, 'flt, 'schema, 'struct) MetricsViewAggregation" where
  "buildClauses h q mv dialect policy =
    (if Dimensions q = [] \<and> Measures q = [] then (Inl NoDimensionsOrMeasures, q)
     else
      (case dimensionLoop h q mv dialect (Dimensions q) ([], [], [], []) of
         Inl e \<Rightarrow> (Inl e, q)
       | Inr (dimCols, groupCols, unnests, args0) \<Rightarrow>
      (case measureLoop h mv (Measures q) dimCols of
         Inl e \<Rightarrow> (Inl e, q)
       | Inr allCols \<Rightarrow>
      (case whereStep h q mv dialect policy args0 of
         Inl e \<Rightarrow> (Inl e, q)
       | Inr (whereC, args1) \<Rightarrow>
      (case havingStep h q mv dialect args1 of
         Inl e \<Rightarrow> (Inl e, q)
       | Inr (havingC, args2) \<Rightarrow>
      (case limitStep q of
         (limitC, q') \<Rightarrow>
           (let c = \<lparr> selectCols = allCols,
                      unnestClauses = unnests,
                      whereClause = whereC,
                      groupClause = (if length groupCols > 0
                                     then ''GROUP BY '' @ Join groupCols '', '' else []),
                      havingClause = havingC,
                      orderClause = orderStep h dialect (Sort q),
                      limitClause = limitC,
                      queryArgs = args2 \<rparr>
            in if PivotOn q \<noteq> [] then
                 (if Offset q \<noteq> 0 then (Inl OffsetNotSupportedForPivot, q')
                  else (Inr (c\<lparr>limitClause := ''LIMIT '' @ fmt_d (maxPivotCells div cols q + 1)\<rparr>),
                        q'))
               else (Inr c, q'))))))))"

text \<open>The two \<^verbatim>\<open>Sprintf\<close> calls (lines 552--573).\<close>

definition renderSQL ::
  "('tr, 'ex, 'flt) helpers \<Rightarrow> MetricsViewSpec \<Rightarrow> bool \<Rightarrow> int \<Rightarrow> clauses \<Rightarrow> string" where
  "renderSQL h mv pivot offset c =
     ''SELECT '' @ Join (selectCols c) '', '' @ '' FROM '' @ safeName h (Table mv) @ '' ''
       @ Join (unnestClauses c) [] @ '' '' @ whereClause c @ '' '' @ groupClause c @ '' ''
       @ havingClause c @ '' '' @ orderClause c @ '' '' @ limitClause c
       @ (if pivot then [] else '' OFFSET '' @ fmt_d offset)"

definition buildMetricsAggregationSQL ::
  "('tr, 'ex, 'flt) helpers \<Rightarrow> ('tr, 'ex, 'flt, 'schema, 'struct) MetricsViewAggregation
   \<Rightarrow> MetricsViewSpec \<Rightarrow> Dialect \<Rightarrow> ResolvedMetricsViewSecurity option
   \<Rightarrow> (error + (string \<times> any_val list)) \<times> ('tr, 'ex, 'flt, 'schema, 'struct) MetricsViewAggregation" where
  "buildMetricsAggregationSQL h q mv dialect policy =
    (case buildClauses h q mv dialect policy of
       (Inl e, q') \<Rightarrow> (Inl e, q')
     | (Inr c, q') \<Rightarrow> (Inr (renderSQL h mv (PivotOn q \<noteq> []) (Offset q) c, queryArgs c), q'))"

text \<open>
  Whether the builder gets as far as its limit step (lines 534--540): the check for an
  empty request and the dimension, measure, WHERE and HAVING steps return no error.
\<close>

definition reachesLimitStep ::
  "('tr, 'ex, 'flt) helpers \<Rightarrow> ('tr, 'ex, 'flt, 'schema, 'struct) MetricsViewAggregation
   \<Rightarrow> MetricsViewSpec \<Rightarrow> Dialect \<Rightarrow> ResolvedMetricsViewSecurity option \<Rightarrow> bool" where
  "reachesLimitStep h q mv dialect policy =
    (if Dimensions q = [] \<and> Measures q = [] then False
     else
      (case dimensionLoop h q mv dialect (Dimensions q) ([], [], [], []) of
         Inl e \<Rightarrow> False
       | Inr (dimCols, groupCols, unnests, args0) \<Rightarrow>
      (case measureLoop h mv (Measures q) dimCols of
         Inl e \<Rightarrow> False
       | Inr allCols \<Rightarrow>
      (case whereStep h q mv dialect policy args0 of
         Inl e \<Rightarrow> False
       | Inr (whereC, args1) \<Rightarrow>
      (case havingStep h q mv dialect args1 of
         Inl e \<Rightarrow> False
       | Inr (havingC, args2) \<Rightarrow> True)))))"

subsection \<open>The pivot query\<close>

definition createPivotSQL ::
  "('tr, 'ex, 'flt) helpers \<Rightarrow> ('tr, 'ex, 'flt, 'schema, 'struct) MetricsViewAggregation
   \<Rightarrow> string \<Rightarrow> string \<times> ('tr, 'ex, 'flt, 'schema, 'struct) MetricsViewAggregation" where
  "createPivotSQL h q temporaryTableName =
    (let measureCols = map (\<lambda>m. ''LAST('' @ safeName h (m_Name m) @ '') as '' @ safeName h (m_Name m))
                           (Measures q);
         sortingCriteria = map (\<lambda>s. safeName h (s_Name s) @ (if s_Desc s then '' DESC'' else [])
                                      @ '' NULLS LAST'') (Sort q);
         orderC = (if length sortingCriteria > 0
                   then ''ORDER BY '' @ Join sortingCriteria '', '' else [])
     in (case limitStep q of
           (limitC, q') \<Rightarrow>
             (''PIVOT '' @ temporaryTableName @ '' ON '' @ Join (PivotOn q) '', '' @ '' USING ''
                @ Join measureCols '', '' @ '' '' @ orderC @ '' '' @ limitC
                @ '' OFFSET '' @ fmt_d (Offset q), q')))"

subsection \<open>The cache key\<close>

text \<open>
  \<^verbatim>\<open>Key\<close> (lines 48--54) formats the JSON encoding of the request. \<^verbatim>\<open>json.Marshal\<close> is
  a parameter; when it returns an error \<^verbatim>\<open>Key\<close> panics, which is \<open>Inl\<close> here.
\<close>

definition Key ::
  "(('tr, 'ex, 'flt, 'schema, 'struct) MetricsViewAggregation \<Rightarrow> error + string)
   \<Rightarrow> ('tr, 'ex, 'flt, 'schema, 'struct) MetricsViewAggregation \<Rightarrow> error + string" where
  "Key marshal q =
    (case marshal q of
       Inl e \<Rightarrow> Inl e
     | Inr r \<Rightarrow> Inr (''MetricsViewAggregation:'' @ r))"

subsection \<open>The backends\<close>

text \<open>
  The OLAP connection, the local DuckDB used for a manual pivot and the functions of
  other packages that \<^verbatim>\<open>Resolve\<close> calls are outside the file. Their outcomes are the
  fields of one record: what each call returns, an error or a value, as a function of
  what the call is given. A theorem about \<^verbatim>\<open>Resolve\<close> holds for all such outcomes.

  A statement is its SQL text, its arguments and its priority; the execution timeout is
  real time and is left out. A cursor (\<^verbatim>\<open>drivers.Result\<close>) is the rows it will yield,
  each with the outcome of \<^verbatim>\<open>Scan\<close>, and the error that \<^verbatim>\<open>Err\<close> reports after the
  last one. The rows of the local pivot query (\<^verbatim>\<open>sqlx.Rows\<close>) are the outcomes of
  \<^verbatim>\<open>MapScan\<close>.
\<close>

record statement =
  Query :: string
  Args :: "any_val list"
  StatementPriority :: int

record 'schema cursor =
  Schema :: 'schema
  Columns :: "error + string list"
  scans :: "(error + any_val list) list"
  rowsErr :: "error option"

record sqlx_rows =
  mapScans :: "(error + (string \<times> any_val) list) list"
  sqlxErr :: "error option"

record ('schema, 'struct) backend =
  rt_OLAP :: "error option"
  olap_Dialect :: Dialect
  olapQuery :: "statement \<Rightarrow> error + ('schema \<times> 'struct list)"
  olap_WithConnection :: "error option"
  olap_Exec :: "statement \<Rightarrow> error option"
  olap_Execute :: "statement \<Rightarrow> error + 'schema cursor"
  tempName :: string
  sqlx_Connect :: "error option"
  CreateTableQuery :: "'schema \<Rightarrow> string \<Rightarrow> error + string"
  pivotDB_ExecContext :: "string \<Rightarrow> error option"
  pivotDB_Conn :: "error option"
  conn_is_driver_Conn :: bool
  NewAppenderFromConn :: "error option"
  AppendRowArray :: "any_val list \<Rightarrow> error option"
  pivotDB_QueryxContext :: "string \<Rightarrow> error + sqlx_rows"
  RowsToSchema :: "sqlx_rows \<Rightarrow> error + 'schema"
  ToStruct :: "(string \<times> any_val) list \<Rightarrow> 'schema \<Rightarrow> error + 'struct"

text \<open>
  What a run leaves behind outside the request: the statements sent to the OLAP backend,
  in order; the temporary tables that exist in the OLAP session; how many rows were
  fetched from the base query's cursor and how many were appended to the local table.
  A \<^verbatim>\<open>CREATE TEMPORARY TABLE\<close> that succeeds adds the table to the session, a
  \<^verbatim>\<open>DROP TABLE\<close> that succeeds removes it.
\<close>

record world =
  executed :: "statement list"
  olap_tables :: "string list"
  rows_fetched :: nat
  rows_appended :: nat

definition send :: "statement \<Rightarrow> world \<Rightarrow> world" where
  "send stmt w = w\<lparr>executed := executed w @ [stmt]\<rparr>"

subsection \<open>toData\<close>

fun toDataLoop ::
  "((string \<times> any_val) list \<Rightarrow> 'schema \<Rightarrow> error + 'struct) \<Rightarrow> 'schema
   \<Rightarrow> (error + (string \<times> any_val) list) list \<Rightarrow> 'struct list \<Rightarrow> error + 'struct list" where
  "toDataLoop toStruct schema [] data = Inr data"
| "toDataLoop toStruct schema (r # rs) data =
    (case r of
       Inl e \<Rightarrow> Inl e
     | Inr rowMap \<Rightarrow>
         (case toStruct rowMap schema of
            Inl e \<Rightarrow> Inl e
          | Inr rowStruct \<Rightarrow> toDataLoop toStruct schema rs (data @ [rowStruct])))"

definition toData ::
  "((string \<times> any_val) list \<Rightarrow> 'schema \<Rightarrow> error + 'struct) \<Rightarrow> sqlx_rows \<Rightarrow> 'schema
   \<Rightarrow> error + 'struct list" where
  "toData toStruct rows schema =
    (case toDataLoop toStruct schema (mapScans rows) [] of
       Inl e \<Rightarrow> Inl e
     | Inr data \<Rightarrow> (case sqlxErr rows of Some e \<Rightarrow> Inl e | None \<Rightarrow> Inr data))"

subsection \<open>The manual pivot (pivotDruid)\<close>

definition batchSize :: int where
  "batchSize = 10000"

text \<open>
  The loop of lines 243--264 over the rows of the cursor. \<open>count\<close> is the local
  variable of that name: it is incremented for every appended row, compared with
  \<open>maxCount\<close>, and set back to 0 when it reaches the batch size.
\<close>

fun appendLoop ::
  "(any_val list \<Rightarrow> error option) \<Rightarrow> int \<Rightarrow> (error + any_val list) list \<Rightarrow> int \<Rightarrow> world
   \<Rightarrow> error option \<times> world" where
  "appendLoop appendRow maxCount [] count w = (None, w)"
| "appendLoop appendRow maxCount (r # rs) count w =
    (case r of
       Inl e \<Rightarrow> (Some e, w\<lparr>rows_fetched := rows_fetched w + 1\<rparr>)
     | Inr vals \<Rightarrow>
         (case appendRow vals of
            Some e \<Rightarrow> (Some e, w\<lparr>rows_fetched := rows_fetched w + 1\<rparr>)
          | None \<Rightarrow>
              (let w' = w\<lparr>rows_fetched := rows_fetched w + 1, rows_appended := rows_appended w + 1\<rparr>
               in if count + 1 > maxCount then (Some (PivotCellsCountLimitExceeded maxPivotCells), w')
                  else if count + 1 \<ge> batchSize then appendLoop appendRow maxCount rs 0 w'
                  else appendLoop appendRow maxCount rs (count + 1) w')))"

text \<open>
  The function given to \<^verbatim>\<open>conn.Raw\<close> (lines 218--268). The quotient
  \<^verbatim>\<open>maxPivotCells / q.cols()\<close> is taken here and in the native pivot after the
  builder has succeeded, hence for a request with at least one dimension or measure; for
  a request with none Go panics on the division, which is outside the model.
\<close>

definition appendRows ::
  "('schema, 'struct) backend \<Rightarrow> ('tr, 'ex, 'flt, 'schema, 'struct) MetricsViewAggregation
   \<Rightarrow> 'schema cursor \<Rightarrow> world \<Rightarrow> error option \<times> world" where
  "appendRows be q rows w =
    (if \<not> conn_is_driver_Conn be then (Some CannotObtainDriverConn, w)
     else
      (case NewAppenderFromConn be of
         Some e \<Rightarrow> (Some e, w)
       | None \<Rightarrow>
           (case Columns rows of
              Inl e \<Rightarrow> (Some e, w)
            | Inr columns \<Rightarrow> appendLoop (AppendRowArray be) (maxPivotCells div cols q) (scans rows) 0 w)))"

text \<open>
  \<^verbatim>\<open>pivotDruid\<close> returns the error (\<open>None\<close> is Go's nil), the request and the world.
  The local DuckDB is opened and closed inside the call.
\<close>

definition pivotDruid ::
  "('tr, 'ex, 'flt) helpers \<Rightarrow> ('schema, 'struct) backend
   \<Rightarrow> ('tr, 'ex, 'flt, 'schema, 'struct) MetricsViewAggregation \<Rightarrow> 'schema cursor \<Rightarrow> world
   \<Rightarrow> error option \<times> ('tr, 'ex, 'flt, 'schema, 'struct) MetricsViewAggregation \<times> world" where
  "pivotDruid h be q rows w =
    (case sqlx_Connect be of
       Some e \<Rightarrow> (Some e, q, w)
     | None \<Rightarrow>
    (case CreateTableQuery be (Schema rows) (tempName be) of
       Inl e \<Rightarrow> (Some e, q, w)
     | Inr createTableSQL \<Rightarrow>
    (case pivotDB_ExecContext be createTableSQL of
       Some e \<Rightarrow> (Some e, q, w)
     | None \<Rightarrow>
    (case pivotDB_Conn be of
       Some e \<Rightarrow> (None, q, w)
     | None \<Rightarrow>
    (case appendRows be q rows w of
       (Some e, w') \<Rightarrow> (Some e, q, w')
     | (None, w') \<Rightarrow>
    (case rowsErr rows of
       Some e \<Rightarrow> (Some e, q, w')
     | None \<Rightarrow>
    (case createPivotSQL h q (tempName be) of
       (pivotSQL, q') \<Rightarrow>
    (case pivotDB_QueryxContext be pivotSQL of
       Inl e \<Rightarrow> (Some e, q', w')
     | Inr pivotRows \<Rightarrow>
    (case RowsToSchema be pivotRows of
       Inl e \<Rightarrow> (Some e, q', w')
     | Inr schema \<Rightarrow>
    (case toData (ToStruct be) pivotRows schema of
       Inl e \<Rightarrow> (Some e, q', w')
     | Inr data \<Rightarrow> (None, q'\<lparr>Result := Some (schema, data)\<rparr>, w')))))))))))"

subsection \<open>The native pivot\<close>

text \<open>
  The deferred \<^verbatim>\<open>DROP TABLE\<close> (lines 156--160): the statement is sent, its error is
  discarded.
\<close>

definition dropTemporaryTable :: "('schema, 'struct) backend \<Rightarrow> string \<Rightarrow> world \<Rightarrow> world" where
  "dropTemporaryTable be temporaryTableName w =
    (let stmt = \<lparr> Query = ''DROP TABLE '' @ [CHR 0x22] @ temporaryTableName @ [CHR 0x22],
                  Args = [], StatementPriority = 0 \<rparr>;
         w' = send stmt w
     in case olap_Exec be stmt of
          None \<Rightarrow> w'\<lparr>olap_tables := removeAll temporaryTableName (olap_tables w')\<rparr>
        | Some e \<Rightarrow> w')"

text \<open>
  The count read from the \<^verbatim>\<open>SELECT COUNT(*)\<close> cursor (lines 141--154): \<open>Inr 0\<close> when
  the cursor has no row. The row holds the count as the number that DuckDB returns; the
  conversions that \<^verbatim>\<open>database/sql\<close> applies to a value of another type are not
  modelled, a row of another shape is a \<^verbatim>\<open>Scan\<close> error here.
\<close>

definition scanCount :: "'schema cursor \<Rightarrow> error + int" where
  "scanCount res =
    (case scans res of
       [] \<Rightarrow> Inr 0
     | r # rs \<Rightarrow>
         (case r of
            Inl e \<Rightarrow> Inl e
          | Inr [NumberValue n] \<Rightarrow> Inr n
          | Inr vals \<Rightarrow> Inl (External ''sql: Scan error'')))"

text \<open>The function given to \<^verbatim>\<open>olap.WithConnection\<close> (lines 121--173).\<close>

definition duckdbPivot ::
  "('tr, 'ex, 'flt) helpers \<Rightarrow> ('schema, 'struct) backend \<Rightarrow> int
   \<Rightarrow> ('tr, 'ex, 'flt, 'schema, 'struct) MetricsViewAggregation \<Rightarrow> string \<Rightarrow> any_val list \<Rightarrow> world
   \<Rightarrow> error option \<times> ('tr, 'ex, 'flt, 'schema, 'struct) MetricsViewAggregation \<times> world" where
  "duckdbPivot h be priority q sqlString args w =
    (let temporaryTableName = tempName be;
         createStmt = \<lparr> Query = ''CREATE TEMPORARY TABLE '' @ temporaryTableName @ '' AS '' @ sqlString,
                        Args = args, StatementPriority = priority \<rparr>;
         w1 = send createStmt w
     in case olap_Exec be createStmt of
          Some e \<Rightarrow> (Some e, q, w1)
        | None \<Rightarrow>
     (let w2 = w1\<lparr>olap_tables := temporaryTableName # olap_tables w1\<rparr>;
          countStmt = \<lparr> Query = ''SELECT COUNT(*) FROM '' @ temporaryTableName,
                        Args = [], StatementPriority = priority \<rparr>;
          w3 = send countStmt w2
      in case olap_Execute be countStmt of
           Inl e \<Rightarrow> (Some e, q, w3)
         | Inr res \<Rightarrow>
      (case scanCount res of
         Inl e \<Rightarrow> (Some e, q, w3)
       | Inr count \<Rightarrow>
           if count > maxPivotCells div cols q then (Some (PivotCellsCountExceeded maxPivotCells), q, w3)
           else
            (case createPivotSQL h q temporaryTableName of
               (pivotSQL, q') \<Rightarrow>
                 (let pivotStmt = \<lparr> Query = pivotSQL, Args = [], StatementPriority = Priority q \<rparr>;
                      w4 = send pivotStmt w3
                  in case olapQuery be pivotStmt of
                       Inl e \<Rightarrow> (Some e, q', dropTemporaryTable be temporaryTableName w4)
                     | Inr res \<Rightarrow> (None, q'\<lparr>Result := Some res\<rparr>,
                                  dropTemporaryTable be temporaryTableName w4))))))"

subsection \<open>Resolve\<close>

definition Resolve ::
  "('tr, 'ex, 'flt) helpers \<Rightarrow> ('schema, 'struct) backend \<Rightarrow> int
   \<Rightarrow> ('tr, 'ex, 'flt, 'schema, 'struct) MetricsViewAggregation \<Rightarrow> world
   \<Rightarrow> error option \<times> ('tr, 'ex, 'flt, 'schema, 'struct) MetricsViewAggregation \<times> world" where
  "Resolve h be priority q w =
    (case rt_OLAP be of
       Some e \<Rightarrow> (Some e, q, w)
     | None \<Rightarrow>
    (if olap_Dialect be \<noteq> DialectDuckDB \<and> olap_Dialect be \<noteq> DialectDruid
     then (Some (NotAvailableForDialect (olap_Dialect be)), q, w)
     else if TimeDimension (MetricsView q) = [] \<and> \<not> isTimeRangeNil h (TimeRange q)
     then (Some NoTimeDimension, q, w)
     else if Filter q \<noteq> None \<and> Where q \<noteq> None
     then (Some BothFilterAndWhere, q, w)
     else
      (let q1 = (case Filter q of None \<Rightarrow> q | Some f \<Rightarrow> q\<lparr>Where := convertFilterToExpression h f\<rparr>)
       in case buildMetricsAggregationSQL h q1 (MetricsView q1) (olap_Dialect be) (ResolvedMVSecurity q1) of
            (Inl e, q2) \<Rightarrow> (Some (ErrorBuildingQuery e), q2, w)
          | (Inr (sqlString, args), q2) \<Rightarrow>
              if PivotOn q2 = [] then
                (let stmt = \<lparr> Query = sqlString, Args = args, StatementPriority = priority \<rparr>
                 in case olapQuery be stmt of
                      Inl e \<Rightarrow> (Some e, q2, send stmt w)
                    | Inr res \<Rightarrow> (None, q2\<lparr>Result := Some res\<rparr>, send stmt w))
              else if olap_Dialect be = DialectDuckDB then
                (case olap_WithConnection be of
                   Some e \<Rightarrow> (Some e, q2, w)
                 | None \<Rightarrow> duckdbPivot h be priority q2 sqlString args w)
              else
                (let stmt = \<lparr> Query = sqlString, Args = args, StatementPriority = priority \<rparr>
                 in case olap_Execute be stmt of
                      Inl e \<Rightarrow> (None, q2, send stmt w)
                    | Inr rows \<Rightarrow> pivotDruid h be q2 rows (send stmt w)))))"

subsection \<open>Example inputs\<close>

text \<open>
  Concrete resolver functions, a view, requests and backends, on which the theorems
  below are instantiated. Names are quoted with square brackets, an expression is given
  as its compiled text, and the example encoding of a request keeps its limit only. Two
  requests carry a WHERE expression that compiles to white space only: a space, U+00A0
  and a tab in the first, U+00A0 alone in the second, which has no time range and no
  security policy either.
\<close>

definition exampleHelpers :: "(unit, string, unit) helpers" where
  "exampleHelpers =
     \<lparr> safeName = (\<lambda>s. ''['' @ s @ '']''),
       metricsViewDimension = (\<lambda>mv n. case find (\<lambda>d. dim_Name d = n) (mv_Dimensions mv) of
                                          None \<Rightarrow> Inl (External ''dimension not found'')
                                        | Some d \<Rightarrow> Inr d),
       dimensionSelect = (\<lambda>mv d dialect. (''['' @ dim_Column d @ ''] as ['' @ dim_Name d @ '']'', [])),
       metricsViewDimensionExpression = (\<lambda>d. ''['' @ dim_Column d @ '']''),
       metricsViewMeasureExpression = (\<lambda>mv n. Inr (''SUM('' @ n @ '')'')),
       timeRangeClause = (\<lambda>tr mv dialect col args.
                            case tr of None \<Rightarrow> Inr ([], args)
                                     | Some u \<Rightarrow> Inr ('' AND '' @ col @ '' >= ?'', args @ [NumberValue 0])),
       buildExpression = (\<lambda>mv ex dialect. Inr (ex, [])),
       convertToDateTruncSpecifier = (\<lambda>g. ''day''),
       convertToDruidTimeFloorSpecifier = (\<lambda>g. ''P1D''),
       isTimeRangeNil = (\<lambda>tr. tr = None),
       convertFilterToExpression = (\<lambda>f. None) \<rparr>"

definition exampleView :: MetricsViewSpec where
  "exampleView =
     \<lparr> Table = ''ad_bids'', TimeDimension = ''timestamp'',
       mv_Dimensions = [\<lparr> dim_Name = ''domain'', dim_Column = ''domain'',
                          dim_Expression = [], dim_Unnest = False \<rparr>] \<rparr>"

definition exampleRequest :: "(unit, string, unit, unit, unit) MetricsViewAggregation" where
  "exampleRequest =
     \<lparr> MetricsViewName = ''ad_bids_metrics'',
       Dimensions = [\<lparr> d_Name = ''domain'', d_TimeGrain = 0, d_TimeZone = [] \<rparr>,
                     \<lparr> d_Name = ''timestamp'', d_TimeGrain = 5, d_TimeZone = [] \<rparr>],
       Measures = [\<lparr> m_Name = ''impressions'', m_BuiltinMeasure = 1, m_BuiltinMeasureArgs = [] \<rparr>],
       Sort = [\<lparr> s_Name = ''impressions'', s_Desc = True \<rparr>, \<lparr> s_Name = ''domain'', s_Desc = False \<rparr>],
       TimeRange = Some (),
       Where = Some ''(domain) IN (?)'',
       Having = None,
       Priority = 0,
       Limit = Some 0,
       Offset = 0,
       MetricsView = exampleView,
       ResolvedMVSecurity = Some \<lparr> RowFilter = ''publisher IS NOT NULL'' \<rparr>,
       PivotOn = [],
       Filter = None,
       Result = None \<rparr>"

definition examplePivotRequest :: "(unit, string, unit, unit, unit) MetricsViewAggregation" where
  "examplePivotRequest = exampleRequest\<lparr> PivotOn := [''domain''], Limit := Some 7 \<rparr>"

definition exampleEmptyRequest :: "(unit, string, unit, unit, unit) MetricsViewAggregation" where
  "exampleEmptyRequest = exampleRequest\<lparr> Dimensions := [], Measures := [] \<rparr>"

definition examplePivotOffsetRequest :: "(unit, string, unit, unit, unit) MetricsViewAggregation" where
  "examplePivotOffsetRequest = examplePivotRequest\<lparr> Offset := 5 \<rparr>"

definition exampleBlankWhereRequest :: "(unit, string, unit, unit, unit) MetricsViewAggregation" where
  "exampleBlankWhereRequest = exampleRequest\<lparr> Where := Some [CHR 0x20, CHR 0xC2, CHR 0xA0, CHR 0x09] \<rparr>"

definition exampleUnfilteredRequest :: "(unit, string, unit, unit, unit) MetricsViewAggregation" where
  "exampleUnfilteredRequest =
     exampleRequest\<lparr> TimeRange := None, Where := Some [CHR 0xC2, CHR 0xA0], ResolvedMVSecurity := None \<rparr>"

definition exampleCursor :: "nat \<Rightarrow> unit cursor" where
  "exampleCursor n =
     \<lparr> Schema = (), Columns = Inr [''domain'', ''timestamp'', ''impressions''],
       scans = replicate n (Inr [StringValue ''msn.com'', NumberValue 0, NumberValue 1]),
       rowsErr = None \<rparr>"

definition exampleCountCursor :: "int \<Rightarrow> unit cursor" where
  "exampleCountCursor n =
     \<lparr> Schema = (), Columns = Inr [''count_star()''], scans = [Inr [NumberValue n]], rowsErr = None \<rparr>"

definition exampleBackend :: "Dialect \<Rightarrow> (error + unit cursor) \<Rightarrow> (unit, unit) backend" where
  "exampleBackend dialect res =
     \<lparr> rt_OLAP = None,
       olap_Dialect = dialect,
       olapQuery = (\<lambda>stmt. Inr ((), [])),
       olap_WithConnection = None,
       olap_Exec = (\<lambda>stmt. None),
       olap_Execute = (\<lambda>stmt. res),
       tempName = ''_for_pivot_1'',
       sqlx_Connect = None,
       CreateTableQuery = (\<lambda>schema name. Inr (''CREATE TABLE '' @ name @ ''(domain VARCHAR)'')),
       pivotDB_ExecContext = (\<lambda>sql. None),
       pivotDB_Conn = None,
       conn_is_driver_Conn = True,
       NewAppenderFromConn = None,
       AppendRowArray = (\<lambda>vals. None),
       pivotDB_QueryxContext = (\<lambda>sql. Inr \<lparr> mapScans = [], sqlxErr = None \<rparr>),
       RowsToSchema = (\<lambda>rows. Inr ()),
       ToStruct = (\<lambda>rowMap schema. Inr ()) \<rparr>"

definition emptyWorld :: world where
  "emptyWorld = \<lparr> executed = [], olap_tables = [], rows_fetched = 0, rows_appended = 0 \<rparr>"

definition exampleMarshal ::
  "(unit, string, unit, unit, unit) MetricsViewAggregation \<Rightarrow> error + string" where
  "exampleMarshal q =
     Inr (case Limit q of None \<Rightarrow> ''{}'' | Some l \<Rightarrow> ''{limit:'' @ fmt_d l @ ''}'')"

section \<open>Properties\<close>

subsection \<open>Formatting\<close>

text \<open>Decimal formatting is injective, and 100 prints as expected.\<close>

lemma digit_char_inj:
  assumes "0 \<le> a" "a < 10" "0 \<le> b" "b < 10" "digit_char a = digit_char b"
  shows "a = b"
proof -
  have d: "distinct ''0123456789''" by simp
  have "nat a < length ''0123456789''" "nat b < length ''0123456789''"
    using assms(2,4) by simp_all
  with d assms(5) have "nat a = nat b"
    unfolding digit_char_def by (simp only: nth_eq_iff_index_eq)
  with assms(1,3) show ?thesis by simp
qed

lemma digits_nonempty: "digits n \<noteq> []"
  by (subst digits.simps) simp

lemma digit_char_not_minus:
  assumes "a < 10"
  shows "digit_char a \<noteq> CHR ''-''"
proof -
  have "nat a < length ''0123456789''" using assms by simp
  then have "digit_char a \<in> set ''0123456789''"
    unfolding digit_char_def by (rule nth_mem)
  then show ?thesis by auto
qed

lemma digits_no_minus: "CHR ''-'' \<notin> set (digits n)"
proof (induction n rule: digits.induct)
  case (1 n)
  show ?case
  proof (cases "n < 10")
    case True
    then show ?thesis using digit_char_not_minus[of n] by (subst digits.simps) auto
  next
    case False
    have "n mod 10 < 10" by simp
    with False show ?thesis using 1 digit_char_not_minus[of "n mod 10"] by (subst digits.simps) auto
  qed
qed

lemma digits_inj: "0 \<le> n \<Longrightarrow> 0 \<le> m \<Longrightarrow> digits n = digits m \<Longrightarrow> n = m"
proof (induction n arbitrary: m rule: digits.induct)
  case (1 n)
  show ?case
  proof (cases "n < 10")
    case n: True
    show ?thesis
    proof (cases "m < 10")
      case True
      with n 1(2,3,4) show ?thesis
        using digit_char_inj[of n m] by (simp add: digits.simps[of n] digits.simps[of m])
    next
      case False
      with n 1(4) digits_nonempty[of "m div 10"] show ?thesis
        by (simp add: digits.simps[of n] digits.simps[of m])
    qed
  next
    case n: False
    show ?thesis
    proof (cases "m < 10")
      case True
      with n 1(4) digits_nonempty[of "n div 10"] show ?thesis
        by (simp add: digits.simps[of n] digits.simps[of m])
    next
      case False
      with n 1(4) have eq: "digits (n div 10) = digits (m div 10)"
        "digit_char (n mod 10) = digit_char (m mod 10)"
        by (simp_all add: digits.simps[of n] digits.simps[of m])
      have "n div 10 = m div 10"
        using 1(1)[OF n _ _ eq(1)] 1(2,3) by simp
      moreover have "n mod 10 = m mod 10"
        using digit_char_inj[OF _ _ _ _ eq(2)] by simp
      ultimately show ?thesis by (metis div_mult_mod_eq)
    qed
  qed
qed

lemma fmt_d_inj: "fmt_d a = fmt_d b \<Longrightarrow> a = b"
proof -
  assume e: "fmt_d a = fmt_d b"
  have hd_pos: "\<And>n. hd (digits n) \<noteq> CHR ''-''"
    using digits_no_minus digits_nonempty by (metis list.set_sel(1))
  show ?thesis
  proof (cases "a < 0"; cases "b < 0")
    assume "a < 0" "b < 0"
    with e have "digits (- a) = digits (- b)" by (simp add: fmt_d_def)
    with \<open>a < 0\<close> \<open>b < 0\<close> digits_inj[of "- a" "- b"] show ?thesis by simp
  next
    assume "a < 0" "\<not> b < 0"
    with e have "CHR ''-'' # digits (- a) = digits b" by (simp add: fmt_d_def)
    then have "hd (digits b) = CHR ''-''" by (metis list.sel(1))
    with hd_pos show ?thesis by blast
  next
    assume "\<not> a < 0" "b < 0"
    with e have "digits a = CHR ''-'' # digits (- b)" by (simp add: fmt_d_def)
    then have "hd (digits a) = CHR ''-''" by (metis list.sel(1))
    with hd_pos show ?thesis by blast
  next
    assume "\<not> a < 0" "\<not> b < 0"
    with e digits_inj[of a b] show ?thesis by (simp add: fmt_d_def)
  qed
qed

lemma TrimSpace_Nil: "TrimSpace [] = []"
  by code_simp

lemma TrimSpace_examples:
  "TrimSpace ''(domain) IN (?)'' = ''(domain) IN (?)''"
  "TrimSpace [CHR 0x20, CHR 0xC2, CHR 0xA0, CHR 0x09] = []"
  "TrimSpace [CHR 0xC2, CHR 0xA0] = []"
  "TrimSpace ([CHR 0x0A, CHR 0xE2, CHR 0x80, CHR 0x83] @ ''a b'' @ [CHR 0xE3, CHR 0x80, CHR 0x80, CHR 0x20]) = ''a b''"
  "TrimSpace [CHR 0xA0] = [CHR 0xA0]"
  by code_simp+

lemma fmt_d_100: "fmt_d 100 = ''100''"
  by code_simp

subsection \<open>What a successful build went through\<close>

lemma dimensionLoop_shape:
  "dimensionLoop h q mv dialect ds (sc, gc, uc, a) = Inr (sc', gc', uc', a') \<Longrightarrow>
   \<exists>new. sc' = sc @ new \<and> length new = length ds \<and>
         gc' = gc @ map (\<lambda>i. fmt_d (int i)) [length sc + 1 ..< length sc + length ds + 1]"
proof (induction ds arbitrary: sc gc uc a)
  case Nil
  then show ?case by simp
next
  case (Cons d ds)
  show ?case
  proof (cases "d_TimeGrain d = TIME_GRAIN_UNSPECIFIED")
    case True
    from Cons.prems True obtain dim dimSel unnestClause where
      rec: "dimensionLoop h q mv dialect ds
              (sc @ [dimSel], gc @ [fmt_d (int (length (sc @ [dimSel])))],
               (if unnestClause \<noteq> [] then uc @ [unnestClause] else uc), a) = Inr (sc', gc', uc', a')"
      by (auto split: sum.splits prod.splits)
    from Cons.IH[OF rec] obtain new where
      n: "sc' = (sc @ [dimSel]) @ new" "length new = length ds"
         "gc' = (gc @ [fmt_d (int (length (sc @ [dimSel])))]) @
                map (\<lambda>i. fmt_d (int i)) [length (sc @ [dimSel]) + 1 ..< length (sc @ [dimSel]) + length ds + 1]"
      by blast
    have up: "[length sc + 1 ..< length sc + length (d # ds) + 1]
              = (length sc + 1) # [length sc + 2 ..< length sc + length ds + 2]"
      using upt_conv_Cons[of "length sc + 1" "length sc + length (d # ds) + 1"] by simp
    show ?thesis
      apply (rule exI[of _ "dimSel # new"])
      using n up by simp
  next
    case False
    from Cons.prems False obtain expr exprArgs where
      rec: "dimensionLoop h q mv dialect ds
              (sc @ [expr], gc @ [fmt_d (int (length (sc @ [expr])))], uc, a @ exprArgs) = Inr (sc', gc', uc', a')"
      by (auto split: sum.splits prod.splits)
    from Cons.IH[OF rec] obtain new where
      n: "sc' = (sc @ [expr]) @ new" "length new = length ds"
         "gc' = (gc @ [fmt_d (int (length (sc @ [expr])))]) @
                map (\<lambda>i. fmt_d (int i)) [length (sc @ [expr]) + 1 ..< length (sc @ [expr]) + length ds + 1]"
      by blast
    have up: "[length sc + 1 ..< length sc + length (d # ds) + 1]
              = (length sc + 1) # [length sc + 2 ..< length sc + length ds + 2]"
      using upt_conv_Cons[of "length sc + 1" "length sc + length (d # ds) + 1"] by simp
    show ?thesis
      apply (rule exI[of _ "expr # new"])
      using n up by simp
  qed
qed

lemma measureLoop_shape:
  "measureLoop h mv ms sc = Inr sc' \<Longrightarrow> \<exists>new. sc' = sc @ new \<and> length new = length ms"
proof (induction ms arbitrary: sc)
  case Nil
  then show ?case by simp
next
  case (Cons m ms)
  from Cons.prems obtain x where rec: "measureLoop h mv ms (sc @ [x]) = Inr sc'"
    by (auto split: sum.splits if_splits list.splits)
  from Cons.IH[OF rec] obtain new where "sc' = (sc @ [x]) @ new" "length new = length ms" by blast
  then show ?case by (intro exI[of _ "x # new"]) simp
qed


lemma buildClauses_Inr:
  assumes "buildClauses h q mv dialect policy = (Inr c, q')"
  obtains dimCols groupCols unnests args0 allCols whereC args1 havingC args2 limitC where
    "dimensionLoop h q mv dialect (Dimensions q) ([], [], [], []) = Inr (dimCols, groupCols, unnests, args0)"
    "measureLoop h mv (Measures q) dimCols = Inr allCols"
    "whereStep h q mv dialect policy args0 = Inr (whereC, args1)"
    "havingStep h q mv dialect args1 = Inr (havingC, args2)"
    "limitStep q = (limitC, q')"
    "PivotOn q \<noteq> [] \<longrightarrow> Offset q = 0"
    "\<not> (Dimensions q = [] \<and> Measures q = [])"
    "c = \<lparr> selectCols = allCols, unnestClauses = unnests, whereClause = whereC,
           groupClause = (if length groupCols > 0 then ''GROUP BY '' @ Join groupCols '', '' else []),
           havingClause = havingC, orderClause = orderStep h dialect (Sort q),
           limitClause = (if PivotOn q \<noteq> [] then ''LIMIT '' @ fmt_d (maxPivotCells div cols q + 1) else limitC),
           queryArgs = args2 \<rparr>"
  using assms unfolding buildClauses_def
  by (auto split: if_splits sum.splits prod.splits simp: Let_def)

lemma build_Inr:
  assumes "buildMetricsAggregationSQL h q mv dialect policy = (Inr (sql, args), q')"
  obtains c where "buildClauses h q mv dialect policy = (Inr c, q')"
    "sql = renderSQL h mv (PivotOn q \<noteq> []) (Offset q) c" "args = queryArgs c"
  using assms unfolding buildMetricsAggregationSQL_def
  by (auto split: sum.splits prod.splits)

lemma dimensionLoop_Limit:
  "dimensionLoop h (q\<lparr>Limit := l\<rparr>) mv dialect ds st = dimensionLoop h q mv dialect ds st"
proof (induction ds arbitrary: st)
  case Nil
  then show ?case by simp
next
  case (Cons d ds)
  obtain sc gc uc a where st: "st = (sc, gc, uc, a)" by (cases st) auto
  have ts: "buildTimestampExpr h (q\<lparr>Limit := l\<rparr>) d dialect = buildTimestampExpr h q d dialect"
    by (simp add: buildTimestampExpr_def)
  show ?case unfolding st
    by (simp add: ts Cons.IH split: sum.splits prod.splits)
qed

lemma buildClauses_pivot_Limit:
  assumes "PivotOn q \<noteq> []"
  shows "fst (buildClauses h (q\<lparr>Limit := l\<rparr>) mv dialect policy) = fst (buildClauses h q mv dialect policy)"
proof -
  have w1: "\<And>a. timeRangeStep h (q\<lparr>Limit := l\<rparr>) mv dialect a = timeRangeStep h q mv dialect a"
    by (simp add: timeRangeStep_def)
  have w2: "whereExprStep h (q\<lparr>Limit := l\<rparr>) mv dialect = whereExprStep h q mv dialect"
    by (simp add: whereExprStep_def)
  have w: "\<And>a. whereStep h (q\<lparr>Limit := l\<rparr>) mv dialect policy a = whereStep h q mv dialect policy a"
    unfolding whereStep_def w1 w2 by (rule refl)
  have hv: "\<And>a. havingStep h (q\<lparr>Limit := l\<rparr>) mv dialect a = havingStep h q mv dialect a"
    by (simp add: havingStep_def)
  have c: "cols (q\<lparr>Limit := l\<rparr>) = cols q" by (simp add: cols_def)
  show ?thesis using assms
    unfolding buildClauses_def
    by (simp add: dimensionLoop_Limit w hv c Let_def split: sum.splits prod.splits)
qed

lemma buildClauses_pivot_offset:
  assumes "PivotOn q \<noteq> []" and "Offset q \<noteq> 0"
  shows "\<exists>e q'. buildClauses h q mv dialect policy = (Inl e, q')"
  using assms unfolding buildClauses_def
  by (auto simp: Let_def split: sum.splits prod.splits)

lemma build_pivot_offset:
  assumes "PivotOn q \<noteq> []" and "Offset q \<noteq> 0"
  shows "\<exists>e q'. buildMetricsAggregationSQL h q mv dialect policy = (Inl e, q')"
  using buildClauses_pivot_offset[OF assms, of h mv dialect policy]
  unfolding buildMetricsAggregationSQL_def by auto

lemma limitStep_frame:
  "snd (limitStep q) = q\<lparr>Limit := (if Limit q = Some 0 then Some 100 else Limit q)\<rparr>"
  by (simp add: limitStep_def split: option.splits)

lemma buildClauses_request:
  "snd (buildClauses h q mv dialect policy)
   = (if reachesLimitStep h q mv dialect policy then snd (limitStep q) else q)"
  unfolding buildClauses_def reachesLimitStep_def
  by (simp add: Let_def split: sum.splits prod.splits)

lemma buildClauses_success_reaches:
  "buildClauses h q mv dialect policy = (Inr c, q') \<Longrightarrow> reachesLimitStep h q mv dialect policy"
  unfolding buildClauses_def reachesLimitStep_def
  by (auto simp: Let_def split: sum.splits prod.splits if_splits)

lemma appendLoop_counter_stays_below_batch:
  assumes "\<forall>r \<in> set rs. \<exists>vals. r = Inr vals \<and> appendRow vals = None"
    and "0 \<le> count" and "count < batchSize" and "batchSize \<le> maxCount"
  shows "appendLoop appendRow maxCount rs count w
         = (None, w\<lparr>rows_fetched := rows_fetched w + length rs,
                     rows_appended := rows_appended w + length rs\<rparr>)"
  using assms
proof (induction rs arbitrary: count w)
  case Nil
  then show ?case by simp
next
  case (Cons r rs)
  from Cons.prems(1) obtain vals where r: "r = Inr vals" "appendRow vals = None" by auto
  from Cons.prems(1) have rest: "\<forall>r \<in> set rs. \<exists>vals. r = Inr vals \<and> appendRow vals = None" by simp
  have le: "\<not> count + 1 > maxCount" using Cons.prems(3,4) by simp
  have b0: "(0::int) < batchSize" by (simp add: batchSize_def)
  show ?case
  proof (cases "count + 1 \<ge> batchSize")
    case True
    then show ?thesis
      using r le Cons.IH[OF rest _ b0 Cons.prems(4)] by (simp add: Let_def)
  next
    case False
    then have "count + 1 < batchSize" "0 \<le> count + 1" using Cons.prems(2) by simp_all
    then show ?thesis
      using r le False Cons.IH[OF rest _ _ Cons.prems(4), of "count + 1"] by (simp add: Let_def)
  qed
qed

lemma example_pivot_cols: "maxPivotCells div cols examplePivotRequest = 333333"
  by (simp add: maxPivotCells_def cols_def examplePivotRequest_def exampleRequest_def)

lemma example_createPivotSQL:
  "createPivotSQL exampleHelpers examplePivotRequest ''_for_pivot_1''
   = (''PIVOT _for_pivot_1 ON domain USING LAST([impressions]) as [impressions] ''
      @ ''ORDER BY [impressions] DESC NULLS LAST, [domain] NULLS LAST LIMIT 7 OFFSET 0'',
      examplePivotRequest)"
  by code_simp

subsection \<open>The examples, evaluated\<close>

lemma example_build:
  "buildMetricsAggregationSQL exampleHelpers exampleRequest exampleView DialectDuckDB
     (Some \<lparr> RowFilter = ''publisher IS NOT NULL'' \<rparr>)
   = (Inr (''SELECT [domain] as [domain], date_trunc('' @ [CHR 0x27] @ ''day'' @ [CHR 0x27]
            @ '', [timestamp]) as [timestamp], COUNT(*) as [impressions] FROM [ad_bids]  ''
            @ ''WHERE 1=1 AND [timestamp] >= ? AND (domain) IN (?) AND (publisher IS NOT NULL) ''
            @ ''GROUP BY 1, 2  ORDER BY [impressions] DESC NULLS LAST, [domain] NULLS LAST ''
            @ ''LIMIT 100 OFFSET 0'', [NumberValue 0]),
      exampleRequest\<lparr> Limit := Some 100 \<rparr>)"
  by code_simp

lemma example_clauses:
  "buildClauses exampleHelpers exampleRequest exampleView DialectDuckDB
     (Some \<lparr> RowFilter = ''publisher IS NOT NULL'' \<rparr>)
   = (Inr \<lparr> selectCols = [''[domain] as [domain]'',
                            ''date_trunc('' @ [CHR 0x27] @ ''day'' @ [CHR 0x27] @ '', [timestamp]) as [timestamp]'',
                            ''COUNT(*) as [impressions]''],
             unnestClauses = [],
             whereClause = ''WHERE 1=1 AND [timestamp] >= ? AND (domain) IN (?) AND (publisher IS NOT NULL)'',
             groupClause = ''GROUP BY 1, 2'',
             havingClause = [],
             orderClause = ''ORDER BY [impressions] DESC NULLS LAST, [domain] NULLS LAST'',
             limitClause = ''LIMIT 100'',
             queryArgs = [NumberValue 0] \<rparr>,
      exampleRequest\<lparr> Limit := Some 100 \<rparr>)"
  by code_simp

lemma example_build_blank_where:
  "buildMetricsAggregationSQL exampleHelpers exampleBlankWhereRequest exampleView DialectDuckDB
     (Some \<lparr> RowFilter = ''publisher IS NOT NULL'' \<rparr>)
   = (Inr (''SELECT [domain] as [domain], date_trunc('' @ [CHR 0x27] @ ''day'' @ [CHR 0x27]
            @ '', [timestamp]) as [timestamp], COUNT(*) as [impressions] FROM [ad_bids]  ''
            @ ''WHERE 1=1 AND [timestamp] >= ? AND (publisher IS NOT NULL) ''
            @ ''GROUP BY 1, 2  ORDER BY [impressions] DESC NULLS LAST, [domain] NULLS LAST ''
            @ ''LIMIT 100 OFFSET 0'', [NumberValue 0]),
      exampleBlankWhereRequest\<lparr> Limit := Some 100 \<rparr>)"
  by code_simp

lemma example_build_unfiltered:
  "buildMetricsAggregationSQL exampleHelpers exampleUnfilteredRequest exampleView DialectDuckDB None
   = (Inr (''SELECT [domain] as [domain], date_trunc('' @ [CHR 0x27] @ ''day'' @ [CHR 0x27]
            @ '', [timestamp]) as [timestamp], COUNT(*) as [impressions] FROM [ad_bids]   ''
            @ ''GROUP BY 1, 2  ORDER BY [impressions] DESC NULLS LAST, [domain] NULLS LAST ''
            @ ''LIMIT 100 OFFSET 0'', []),
      exampleUnfilteredRequest\<lparr> Limit := Some 100 \<rparr>)"
  by code_simp

lemma example_build_pivot_druid:
  "buildMetricsAggregationSQL exampleHelpers examplePivotRequest exampleView DialectDruid
     (Some \<lparr> RowFilter = ''publisher IS NOT NULL'' \<rparr>)
   = (Inr (''SELECT [domain] as [domain], date_trunc('' @ [CHR 0x27] @ ''day'' @ [CHR 0x27]
            @ '', [timestamp]) as [timestamp], COUNT(*) as [impressions] FROM [ad_bids]  ''
            @ ''WHERE 1=1 AND [timestamp] >= ? AND (domain) IN (?) AND (publisher IS NOT NULL) ''
            @ ''GROUP BY 1, 2  ORDER BY [impressions] DESC, [domain] ''
            @ ''LIMIT 333334'', [NumberValue 0]),
      examplePivotRequest)"
  by code_simp

lemma example_pivot_fields:
  "Filter examplePivotRequest = None" "MetricsView examplePivotRequest = exampleView"
  "ResolvedMVSecurity examplePivotRequest = Some \<lparr> RowFilter = ''publisher IS NOT NULL'' \<rparr>"
  "PivotOn examplePivotRequest \<noteq> []" "TimeDimension exampleView \<noteq> []"
  by (simp_all add: examplePivotRequest_def exampleRequest_def exampleView_def)


lemma example_pivotDruid_all_rows:
  "pivotDruid exampleHelpers (exampleBackend DialectDruid (Inr (exampleCursor 333334)))
      examplePivotRequest (exampleCursor 333334) w
   = (None, examplePivotRequest\<lparr>Result := Some ((), [])\<rparr>,
      w\<lparr>rows_fetched := rows_fetched w + 333334, rows_appended := rows_appended w + 333334\<rparr>)"
proof -
  have rows: "\<forall>r \<in> set (scans (exampleCursor 333334)).
                \<exists>vals. r = Inr vals \<and> AppendRowArray (exampleBackend DialectDruid (Inr (exampleCursor 333334))) vals = None"
    by (simp add: exampleCursor_def exampleBackend_def)
  have loop: "appendLoop (AppendRowArray (exampleBackend DialectDruid (Inr (exampleCursor 333334))))
                (maxPivotCells div cols examplePivotRequest) (scans (exampleCursor 333334)) 0 w
              = (None, w\<lparr>rows_fetched := rows_fetched w + 333334, rows_appended := rows_appended w + 333334\<rparr>)"
    using appendLoop_counter_stays_below_batch[OF rows, of 0 "maxPivotCells div cols examplePivotRequest" w]
    by (simp add: example_pivot_cols batchSize_def exampleCursor_def)
  have ar: "appendRows (exampleBackend DialectDruid (Inr (exampleCursor 333334))) examplePivotRequest
              (exampleCursor 333334) w
            = (None, w\<lparr>rows_fetched := rows_fetched w + 333334, rows_appended := rows_appended w + 333334\<rparr>)"
    unfolding appendRows_def using loop
    by (simp add: exampleBackend_def exampleCursor_def)
  have td: "\<And>f. toData f \<lparr> mapScans = [], sqlxErr = None \<rparr> () = Inr []"
    by (simp add: toData_def)
  show ?thesis
    unfolding pivotDruid_def ar
    by (simp add: exampleBackend_def example_createPivotSQL td exampleCursor_def)
qed

lemma example_pivot_offset_build:
  "buildMetricsAggregationSQL exampleHelpers examplePivotOffsetRequest exampleView DialectDuckDB None
   = (Inl OffsetNotSupportedForPivot, examplePivotOffsetRequest)"
  by code_simp

lemma example_pivot_offset_Resolve:
  "Resolve exampleHelpers (exampleBackend DialectDuckDB (Inr (exampleCountCursor 1))) 0
     examplePivotOffsetRequest emptyWorld
   = (Some (ErrorBuildingQuery OffsetNotSupportedForPivot), examplePivotOffsetRequest, emptyWorld)"
  by code_simp

lemma exampleMarshal_tells_limits_apart:
  "exampleMarshal a = Inr s \<Longrightarrow> exampleMarshal b = Inr s \<Longrightarrow> Limit a = Limit b"
  unfolding exampleMarshal_def
  by (cases "Limit a"; cases "Limit b") (auto dest: fmt_d_inj)

subsection \<open>The cell budget of the manual pivot\<close>

text \<open>
  C1. The claim: in the manual pivot, \<^verbatim>\<open>pivotDruid\<close> fails with the cells-limit error
  as soon as the number of appended rows exceeds \<open>maxPivotCells div cols\<close>. The code does
  not: the counter that is compared with the quotient is set back to 0 after every
  10000 rows, so for a request of at most 100 columns (a quotient of at least 10000) the
  comparison never succeeds. Here a request of 3 columns has the quotient 333333; the
  cursor yields 333334 rows, the number that the LIMIT of the base query lets through;
  all of them are fetched and appended, and \<^verbatim>\<open>pivotDruid\<close>, and \<^verbatim>\<open>Resolve\<close>
  on the Druid dialect with it, returns nil with a result.
\<close>

theorem manual_pivot_budget_not_enforced:
  "maxPivotCells div cols examplePivotRequest = 333333 \<and>
   length (scans (exampleCursor 333334)) = 333334 \<and>
   pivotDruid exampleHelpers (exampleBackend DialectDruid (Inr (exampleCursor 333334)))
      examplePivotRequest (exampleCursor 333334) emptyWorld
   = (None, examplePivotRequest\<lparr>Result := Some ((), [])\<rparr>,
      emptyWorld\<lparr>rows_fetched := 333334, rows_appended := 333334\<rparr>) \<and>
   Resolve exampleHelpers (exampleBackend DialectDruid (Inr (exampleCursor 333334))) 0
      examplePivotRequest emptyWorld
   = (None, examplePivotRequest\<lparr>Result := Some ((), [])\<rparr>,
      \<lparr> executed =
          [\<lparr> Query = ''SELECT [domain] as [domain], date_trunc('' @ [CHR 0x27] @ ''day'' @ [CHR 0x27]
                 @ '', [timestamp]) as [timestamp], COUNT(*) as [impressions] FROM [ad_bids]  ''
                 @ ''WHERE 1=1 AND [timestamp] >= ? AND (domain) IN (?) AND (publisher IS NOT NULL) ''
                 @ ''GROUP BY 1, 2  ORDER BY [impressions] DESC, [domain] ''
                 @ ''LIMIT 333334'',
              Args = [NumberValue 0], StatementPriority = 0 \<rparr>],
        olap_tables = [], rows_fetched = 333334, rows_appended = 333334 \<rparr>)"
proof -
  have pd: "pivotDruid exampleHelpers (exampleBackend DialectDruid (Inr (exampleCursor 333334)))
      examplePivotRequest (exampleCursor 333334) emptyWorld
   = (None, examplePivotRequest\<lparr>Result := Some ((), [])\<rparr>,
      emptyWorld\<lparr>rows_fetched := 333334, rows_appended := 333334\<rparr>)"
    unfolding example_pivotDruid_all_rows by (simp add: emptyWorld_def)
  have be: "rt_OLAP (exampleBackend DialectDruid (Inr (exampleCursor 333334))) = None"
    "olap_Dialect (exampleBackend DialectDruid (Inr (exampleCursor 333334))) = DialectDruid"
    "\<And>stmt. olap_Execute (exampleBackend DialectDruid (Inr (exampleCursor 333334))) stmt
             = Inr (exampleCursor 333334)"
    by (simp_all add: exampleBackend_def)
  have rs: "Resolve exampleHelpers (exampleBackend DialectDruid (Inr (exampleCursor 333334))) 0
      examplePivotRequest emptyWorld
   = (None, examplePivotRequest\<lparr>Result := Some ((), [])\<rparr>,
      \<lparr> executed =
          [\<lparr> Query = ''SELECT [domain] as [domain], date_trunc('' @ [CHR 0x27] @ ''day'' @ [CHR 0x27]
                 @ '', [timestamp]) as [timestamp], COUNT(*) as [impressions] FROM [ad_bids]  ''
                 @ ''WHERE 1=1 AND [timestamp] >= ? AND (domain) IN (?) AND (publisher IS NOT NULL) ''
                 @ ''GROUP BY 1, 2  ORDER BY [impressions] DESC, [domain] ''
                 @ ''LIMIT 333334'',
              Args = [NumberValue 0], StatementPriority = 0 \<rparr>],
        olap_tables = [], rows_fetched = 333334, rows_appended = 333334 \<rparr>)"
    unfolding Resolve_def be
    by (simp add: example_pivot_fields example_build_pivot_druid example_pivotDruid_all_rows
          send_def emptyWorld_def)
  show ?thesis using example_pivot_cols pd rs by (simp add: exampleCursor_def)
qed

subsection \<open>The temporary table of the native pivot\<close>

text \<open>
  C2. The claim: in the native pivot, a temporary table that was created is dropped
  before \<^verbatim>\<open>Resolve\<close> returns, on every exit path. The code registers the deferred
  \<^verbatim>\<open>DROP TABLE\<close> only after the count check, so the paths that leave before it send
  no \<^verbatim>\<open>DROP\<close>. Here the count query reports 333334 rows for a request of 3 columns:
  \<^verbatim>\<open>Resolve\<close> returns the cell-limit error, the statements sent are the
  \<^verbatim>\<open>CREATE TEMPORARY TABLE\<close> and the \<^verbatim>\<open>SELECT COUNT(*)\<close> only, and the table is
  still in the session.
\<close>

theorem native_pivot_leaves_table_on_cell_limit:
  "Resolve exampleHelpers (exampleBackend DialectDuckDB (Inr (exampleCountCursor 333334))) 0
      examplePivotRequest emptyWorld
   = (Some (PivotCellsCountExceeded 1000000), examplePivotRequest,
      \<lparr> executed =
          [\<lparr> Query = ''CREATE TEMPORARY TABLE _for_pivot_1 AS ''
                 @ ''SELECT [domain] as [domain], date_trunc('' @ [CHR 0x27] @ ''day'' @ [CHR 0x27]
                 @ '', [timestamp]) as [timestamp], COUNT(*) as [impressions] FROM [ad_bids]  ''
                 @ ''WHERE 1=1 AND [timestamp] >= ? AND (domain) IN (?) AND (publisher IS NOT NULL) ''
                 @ ''GROUP BY 1, 2  ORDER BY [impressions] DESC NULLS LAST, [domain] NULLS LAST ''
                 @ ''LIMIT 333334'',
              Args = [NumberValue 0], StatementPriority = 0 \<rparr>,
           \<lparr> Query = ''SELECT COUNT(*) FROM _for_pivot_1'', Args = [], StatementPriority = 0 \<rparr>],
        olap_tables = [''_for_pivot_1''],
        rows_fetched = 0, rows_appended = 0 \<rparr>)"
  by code_simp

subsection \<open>Errors that do not reach the caller\<close>

text \<open>
  C3. The claim: whenever a backend execution step returns an error, \<^verbatim>\<open>Resolve\<close>
  returns a non-nil error. The code returns nil in two places. Here the base query fails
  on the Druid path: \<^verbatim>\<open>Resolve\<close> returns nil and the request has no result. And
  here the connection of the local pivot engine cannot be acquired: \<^verbatim>\<open>pivotDruid\<close>,
  and \<^verbatim>\<open>Resolve\<close> with it, returns nil, again without a result.
\<close>

theorem resolve_swallows_backend_errors:
  "Resolve exampleHelpers (exampleBackend DialectDruid (Inl (External ''druid: query failed''))) 0
      examplePivotRequest emptyWorld
   = (None, examplePivotRequest,
      \<lparr> executed =
          [\<lparr> Query = ''SELECT [domain] as [domain], date_trunc('' @ [CHR 0x27] @ ''day'' @ [CHR 0x27]
                 @ '', [timestamp]) as [timestamp], COUNT(*) as [impressions] FROM [ad_bids]  ''
                 @ ''WHERE 1=1 AND [timestamp] >= ? AND (domain) IN (?) AND (publisher IS NOT NULL) ''
                 @ ''GROUP BY 1, 2  ORDER BY [impressions] DESC, [domain] ''
                 @ ''LIMIT 333334'',
              Args = [NumberValue 0], StatementPriority = 0 \<rparr>],
        olap_tables = [], rows_fetched = 0, rows_appended = 0 \<rparr>) \<and>
   Result examplePivotRequest = None \<and>
   pivotDruid exampleHelpers
      ((exampleBackend DialectDruid (Inr (exampleCursor 1)))\<lparr>pivotDB_Conn := Some (External ''connection failed'')\<rparr>)
      examplePivotRequest (exampleCursor 1) emptyWorld
   = (None, examplePivotRequest, emptyWorld) \<and>
   fst (Resolve exampleHelpers
          ((exampleBackend DialectDruid (Inr (exampleCursor 1)))\<lparr>pivotDB_Conn := Some (External ''connection failed'')\<rparr>)
          0 examplePivotRequest emptyWorld) = None \<and>
   Result (fst (snd (Resolve exampleHelpers
          ((exampleBackend DialectDruid (Inr (exampleCursor 1)))\<lparr>pivotDB_Conn := Some (External ''connection failed'')\<rparr>)
          0 examplePivotRequest emptyWorld))) = None"
  by code_simp

subsection \<open>The pivot path of the builder\<close>

text \<open>
  C4. For a request with a pivot axis whose build succeeds, the LIMIT clause of the
  compiled SQL is \<open>LIMIT (maxPivotCells div (number of dimensions + number of measures)) + 1\<close>,
  it is the last clause of the SQL, and the SQL and its arguments are the same whatever
  limit the request carries.
\<close>

theorem pivot_limit_overrides_request_limit:
  assumes "PivotOn q \<noteq> []"
    and "buildMetricsAggregationSQL h q mv dialect policy = (Inr (sql, args), q')"
  shows "\<exists>c. buildClauses h q mv dialect policy = (Inr c, q') \<and>
           limitClause c = ''LIMIT '' @ fmt_d (maxPivotCells div (int (length (Dimensions q)) + int (length (Measures q))) + 1) \<and>
           sql = ''SELECT '' @ Join (selectCols c) '', '' @ '' FROM '' @ safeName h (Table mv) @ '' ''
                 @ Join (unnestClauses c) [] @ '' '' @ whereClause c @ '' '' @ groupClause c @ '' ''
                 @ havingClause c @ '' '' @ orderClause c @ '' ''
                 @ ''LIMIT '' @ fmt_d (maxPivotCells div (int (length (Dimensions q)) + int (length (Measures q))) + 1) \<and>
           (\<forall>l. fst (buildMetricsAggregationSQL h (q\<lparr>Limit := l\<rparr>) mv dialect policy) = Inr (sql, args))"
proof -
  from assms(2) obtain c where c: "buildClauses h q mv dialect policy = (Inr c, q')"
    "sql = renderSQL h mv (PivotOn q \<noteq> []) (Offset q) c" "args = queryArgs c"
    by (rule build_Inr)
  from c(1) have lim: "limitClause c = ''LIMIT '' @ fmt_d (maxPivotCells div cols q + 1)"
    using assms(1) by (elim buildClauses_Inr) simp
  have indep: "fst (buildMetricsAggregationSQL h (q\<lparr>Limit := l\<rparr>) mv dialect policy) = Inr (sql, args)" for l
  proof -
    have "fst (buildClauses h (q\<lparr>Limit := l\<rparr>) mv dialect policy) = Inr c"
      using buildClauses_pivot_Limit[OF assms(1), of h l mv dialect policy] c(1) by simp
    then obtain q2 where "buildClauses h (q\<lparr>Limit := l\<rparr>) mv dialect policy = (Inr c, q2)"
      by (cases "buildClauses h (q\<lparr>Limit := l\<rparr>) mv dialect policy") auto
    then show ?thesis using c(2,3) by (simp add: buildMetricsAggregationSQL_def)
  qed
  show ?thesis
    apply (rule exI[of _ c])
    using c lim indep assms(1) by (simp add: renderSQL_def cols_def)
qed

theorem pivot_limit_overrides_request_limit_witness:
  "PivotOn examplePivotRequest \<noteq> [] \<and> Limit examplePivotRequest = Some 7 \<and>
   buildMetricsAggregationSQL exampleHelpers examplePivotRequest exampleView DialectDuckDB None
   = (Inr (''SELECT [domain] as [domain], date_trunc('' @ [CHR 0x27] @ ''day'' @ [CHR 0x27]
            @ '', [timestamp]) as [timestamp], COUNT(*) as [impressions] FROM [ad_bids]  ''
            @ ''WHERE 1=1 AND [timestamp] >= ? AND (domain) IN (?) ''
            @ ''GROUP BY 1, 2  ORDER BY [impressions] DESC NULLS LAST, [domain] NULLS LAST ''
            @ ''LIMIT 333334'', [NumberValue 0]),
      examplePivotRequest) \<and>
   fst (buildMetricsAggregationSQL exampleHelpers (examplePivotRequest\<lparr>Limit := Some 2\<rparr>) exampleView DialectDuckDB None)
   = Inr (''SELECT [domain] as [domain], date_trunc('' @ [CHR 0x27] @ ''day'' @ [CHR 0x27]
            @ '', [timestamp]) as [timestamp], COUNT(*) as [impressions] FROM [ad_bids]  ''
            @ ''WHERE 1=1 AND [timestamp] >= ? AND (domain) IN (?) ''
            @ ''GROUP BY 1, 2  ORDER BY [impressions] DESC NULLS LAST, [domain] NULLS LAST ''
            @ ''LIMIT 333334'', [NumberValue 0])"
proof -
  have p: "PivotOn examplePivotRequest \<noteq> []" "Limit examplePivotRequest = Some 7"
    by (simp_all add: examplePivotRequest_def)
  have b: "buildMetricsAggregationSQL exampleHelpers examplePivotRequest exampleView DialectDuckDB None
   = (Inr (''SELECT [domain] as [domain], date_trunc('' @ [CHR 0x27] @ ''day'' @ [CHR 0x27]
            @ '', [timestamp]) as [timestamp], COUNT(*) as [impressions] FROM [ad_bids]  ''
            @ ''WHERE 1=1 AND [timestamp] >= ? AND (domain) IN (?) ''
            @ ''GROUP BY 1, 2  ORDER BY [impressions] DESC NULLS LAST, [domain] NULLS LAST ''
            @ ''LIMIT 333334'', [NumberValue 0]),
      examplePivotRequest)"
    by code_simp
  from pivot_limit_overrides_request_limit[OF p(1) b] show ?thesis using p b by blast
qed

text \<open>
  C5. A request with a pivot axis and a nonzero offset is rejected: the builder returns
  an error and no query, and \<^verbatim>\<open>Resolve\<close> returns an error with the world as it was,
  that is, without a statement sent to the backend.
\<close>

theorem pivot_offset_rejected_before_execution:
  assumes "PivotOn q \<noteq> []" and "Offset q \<noteq> 0"
  shows "(\<exists>e q'. buildMetricsAggregationSQL h q mv dialect policy = (Inl e, q')) \<and>
         (\<exists>e q'. Resolve h be priority q w = (Some e, q', w))"
proof -
  define q1 where "q1 = (case Filter q of None \<Rightarrow> q | Some f \<Rightarrow> q\<lparr>Where := convertFilterToExpression h f\<rparr>)"
  have p: "PivotOn q1 \<noteq> []" "Offset q1 \<noteq> 0"
    using assms unfolding q1_def by (cases "Filter q"; simp)+
  from build_pivot_offset[OF p] obtain e q2 where
    b: "buildMetricsAggregationSQL h q1 (MetricsView q1) (olap_Dialect be) (ResolvedMVSecurity q1) = (Inl e, q2)"
    by blast
  have "\<exists>e q'. Resolve h be priority q w = (Some e, q', w)"
    unfolding Resolve_def Let_def q1_def[symmetric] b
    by (simp split: option.splits)
  with build_pivot_offset[OF assms] show ?thesis by blast
qed

theorem pivot_offset_rejected_before_execution_witness:
  "PivotOn examplePivotOffsetRequest \<noteq> [] \<and> Offset examplePivotOffsetRequest \<noteq> 0 \<and>
   buildMetricsAggregationSQL exampleHelpers examplePivotOffsetRequest exampleView DialectDuckDB None
     = (Inl OffsetNotSupportedForPivot, examplePivotOffsetRequest) \<and>
   Resolve exampleHelpers (exampleBackend DialectDuckDB (Inr (exampleCountCursor 1))) 0
     examplePivotOffsetRequest emptyWorld
     = (Some (ErrorBuildingQuery OffsetNotSupportedForPivot), examplePivotOffsetRequest, emptyWorld)"
proof -
  have p: "PivotOn examplePivotOffsetRequest \<noteq> []" "Offset examplePivotOffsetRequest \<noteq> 0"
    by (simp_all add: examplePivotOffsetRequest_def examplePivotRequest_def)
  from pivot_offset_rejected_before_execution[OF p, of exampleHelpers exampleView DialectDuckDB None
         "exampleBackend DialectDuckDB (Inr (exampleCountCursor 1))" 0 emptyWorld]
       p example_pivot_offset_build example_pivot_offset_Resolve
  show ?thesis by simp
qed

subsection \<open>The clauses of the base query\<close>

text \<open>
  C6. For a request whose build succeeds, the SELECT list is the entries of the
  dimensions, one for each and in their order, followed by the entries of the measures;
  the GROUP BY clause is \<open>GROUP BY 1, 2, ..., n\<close> for the \<open>n\<close> dimensions, the decimal
  positions of their entries in the SELECT list; with no dimension the clause is empty.
\<close>

theorem group_by_ordinal_positions:
  assumes "buildMetricsAggregationSQL h q mv dialect policy = (Inr (sql, args), q')"
  shows "\<exists>c dimCols measureCols a.
           buildClauses h q mv dialect policy = (Inr c, q') \<and>
           dimensionLoop h q mv dialect (Dimensions q) ([], [], [], [])
             = Inr (dimCols, map (\<lambda>i. fmt_d (int i)) [1 ..< length (Dimensions q) + 1], unnestClauses c, a) \<and>
           measureLoop h mv (Measures q) dimCols = Inr (dimCols @ measureCols) \<and>
           length dimCols = length (Dimensions q) \<and>
           length measureCols = length (Measures q) \<and>
           selectCols c = dimCols @ measureCols \<and>
           groupClause c = (if Dimensions q = [] then []
                            else ''GROUP BY '' @ Join (map (\<lambda>i. fmt_d (int i)) [1 ..< length (Dimensions q) + 1]) '', '') \<and>
           sql = ''SELECT '' @ Join (dimCols @ measureCols) '', '' @ '' FROM '' @ safeName h (Table mv) @ '' ''
                 @ Join (unnestClauses c) [] @ '' '' @ whereClause c @ '' ''
                 @ (if Dimensions q = [] then []
                    else ''GROUP BY '' @ Join (map (\<lambda>i. fmt_d (int i)) [1 ..< length (Dimensions q) + 1]) '', '')
                 @ '' '' @ havingClause c @ '' '' @ orderClause c @ '' '' @ limitClause c
                 @ (if PivotOn q \<noteq> [] then [] else '' OFFSET '' @ fmt_d (Offset q))"
proof -
  from assms obtain c where c: "buildClauses h q mv dialect policy = (Inr c, q')"
    "sql = renderSQL h mv (PivotOn q \<noteq> []) (Offset q) c"
    by (rule build_Inr)
  from c(1) obtain dimCols groupCols unnests args0 allCols where
    d: "dimensionLoop h q mv dialect (Dimensions q) ([], [], [], []) = Inr (dimCols, groupCols, unnests, args0)"
    and m: "measureLoop h mv (Measures q) dimCols = Inr allCols"
    and sc: "selectCols c = allCols" and un: "unnestClauses c = unnests"
    and gc: "groupClause c = (if length groupCols > 0 then ''GROUP BY '' @ Join groupCols '', '' else [])"
    by (elim buildClauses_Inr) simp
  from dimensionLoop_shape[OF d] have
    dl: "length dimCols = length (Dimensions q)"
    and gl: "groupCols = map (\<lambda>i. fmt_d (int i)) [1 ..< length (Dimensions q) + 1]"
    by auto
  from measureLoop_shape[OF m] obtain measureCols where
    ml: "allCols = dimCols @ measureCols" "length measureCols = length (Measures q)"
    by blast
  have g: "groupClause c = (if Dimensions q = [] then []
             else ''GROUP BY '' @ Join (map (\<lambda>i. fmt_d (int i)) [1 ..< length (Dimensions q) + 1]) '', '')"
    using gc gl by (cases "Dimensions q") simp_all
  have s: "sql = ''SELECT '' @ Join (dimCols @ measureCols) '', '' @ '' FROM '' @ safeName h (Table mv) @ '' ''
                 @ Join (unnestClauses c) [] @ '' '' @ whereClause c @ '' ''
                 @ (if Dimensions q = [] then []
                    else ''GROUP BY '' @ Join (map (\<lambda>i. fmt_d (int i)) [1 ..< length (Dimensions q) + 1]) '', '')
                 @ '' '' @ havingClause c @ '' '' @ orderClause c @ '' '' @ limitClause c
                 @ (if PivotOn q \<noteq> [] then [] else '' OFFSET '' @ fmt_d (Offset q))"
    unfolding c(2) renderSQL_def sc ml(1) g by simp
  show ?thesis
    apply (rule exI[of _ c], rule exI[of _ dimCols], rule exI[of _ measureCols], rule exI[of _ args0])
    using c(1) d m dl ml sc un gl g s by simp
qed

theorem group_by_ordinal_positions_witness:
  "buildMetricsAggregationSQL exampleHelpers exampleRequest exampleView DialectDuckDB
     (Some \<lparr> RowFilter = ''publisher IS NOT NULL'' \<rparr>)
   = (Inr (''SELECT [domain] as [domain], date_trunc('' @ [CHR 0x27] @ ''day'' @ [CHR 0x27]
            @ '', [timestamp]) as [timestamp], COUNT(*) as [impressions] FROM [ad_bids]  ''
            @ ''WHERE 1=1 AND [timestamp] >= ? AND (domain) IN (?) AND (publisher IS NOT NULL) ''
            @ ''GROUP BY 1, 2  ORDER BY [impressions] DESC NULLS LAST, [domain] NULLS LAST ''
            @ ''LIMIT 100 OFFSET 0'', [NumberValue 0]),
      exampleRequest\<lparr> Limit := Some 100 \<rparr>) \<and>
   (\<exists>c. buildClauses exampleHelpers exampleRequest exampleView DialectDuckDB
           (Some \<lparr> RowFilter = ''publisher IS NOT NULL'' \<rparr>) = (Inr c, exampleRequest\<lparr> Limit := Some 100 \<rparr>) \<and>
        length (selectCols c) = 3 \<and> groupClause c = ''GROUP BY 1, 2'')"
proof -
  have n: "Dimensions exampleRequest \<noteq> []" "length (Dimensions exampleRequest) = 2"
    "length (Measures exampleRequest) = 1"
    by (simp_all add: exampleRequest_def)
  have j: "Join (map (\<lambda>i. fmt_d (int i)) [1 ..< 2 + 1]) '', '' = ''1, 2''"
    by code_simp
  from group_by_ordinal_positions[OF example_build] obtain c dimCols measureCols where
    "buildClauses exampleHelpers exampleRequest exampleView DialectDuckDB
       (Some \<lparr> RowFilter = ''publisher IS NOT NULL'' \<rparr>) = (Inr c, exampleRequest\<lparr> Limit := Some 100 \<rparr>)"
    "length dimCols = length (Dimensions exampleRequest)"
    "length measureCols = length (Measures exampleRequest)"
    "selectCols c = dimCols @ measureCols"
    "groupClause c = (if Dimensions exampleRequest = [] then []
        else ''GROUP BY '' @ Join (map (\<lambda>i. fmt_d (int i)) [1 ..< length (Dimensions exampleRequest) + 1]) '', '')"
    by blast
  then show ?thesis using example_build n j by auto
qed

text \<open>
  C7. For a request whose build succeeds, the WHERE clause is empty exactly when the
  time-range predicate is empty, the compiled WHERE expression is blank and the row filter
  of the security policy is empty. Otherwise it is \<open>WHERE 1=1\<close> followed by the
  time-range predicate, then \<open>AND\<close> and the compiled expression when that is not blank,
  then \<open>AND\<close> and the row filter in parentheses when that is not empty. Blank is what
  \<^verbatim>\<open>strings.TrimSpace\<close> reduces to the empty string: white space only, in the
  Unicode sense. The time-range predicate is the text that \<^verbatim>\<open>timeRangeClause\<close>
  returns for a view with a time dimension, called with the arguments that the loop over
  the dimensions has collected (it brings its own leading \<open>AND\<close>), and empty for a view
  without one.
\<close>

theorem where_clause_sentinel_and_order:
  assumes "buildMetricsAggregationSQL h q mv dialect policy = (Inr (sql, args), q')"
  shows "\<exists>c dimCols groupCols unnests a0 timePred a1 exprSql rowFilter.
           buildClauses h q mv dialect policy = (Inr c, q') \<and>
           sql = renderSQL h mv (PivotOn q \<noteq> []) (Offset q) c \<and>
           dimensionLoop h q mv dialect (Dimensions q) ([], [], [], [])
             = Inr (dimCols, groupCols, unnests, a0) \<and>
           (if TimeDimension mv \<noteq> []
            then timeRangeClause h (TimeRange q) mv dialect (safeName h (TimeDimension mv)) a0 = Inr (timePred, a1)
            else timePred = []) \<and>
           (case Where q of None \<Rightarrow> exprSql = []
            | Some ex \<Rightarrow> (\<exists>ea. buildExpression h mv ex dialect = Inr (exprSql, ea))) \<and>
           rowFilter = (case policy of None \<Rightarrow> [] | Some p \<Rightarrow> RowFilter p) \<and>
           (whereClause c = [] \<longleftrightarrow> timePred = [] \<and> TrimSpace exprSql = [] \<and> rowFilter = []) \<and>
           (whereClause c \<noteq> [] \<longrightarrow>
              whereClause c = ''WHERE 1=1'' @ timePred
                 @ (if TrimSpace exprSql \<noteq> [] then '' AND '' @ exprSql else [])
                 @ (if rowFilter \<noteq> [] then '' AND ('' @ rowFilter @ '')'' else []))"
proof -
  from assms obtain c where c: "buildClauses h q mv dialect policy = (Inr c, q')"
    "sql = renderSQL h mv (PivotOn q \<noteq> []) (Offset q) c"
    by (rule build_Inr)
  from c(1) obtain dimCols groupCols unnests args0 args1 where
    d: "dimensionLoop h q mv dialect (Dimensions q) ([], [], [], []) = Inr (dimCols, groupCols, unnests, args0)"
    and w: "whereStep h q mv dialect policy args0 = Inr (whereClause c, args1)"
    by (elim buildClauses_Inr) simp
  from w obtain timePred a1 exprClause clauseArgs where
    t: "timeRangeStep h q mv dialect args0 = Inr (timePred, a1)"
    and e: "whereExprStep h q mv dialect = Inr (exprClause, clauseArgs)"
    and wc: "whereClause c = (if length (timePred @ exprClause @ rowFilterStep policy) > 0
                              then ''WHERE 1=1'' @ timePred @ exprClause @ rowFilterStep policy
                              else timePred @ exprClause @ rowFilterStep policy)"
    unfolding whereStep_def by (auto split: sum.splits prod.splits simp: Let_def)
  from e obtain exprSql where
    x: "case Where q of None \<Rightarrow> exprSql = []
        | Some ex \<Rightarrow> (\<exists>ea. buildExpression h mv ex dialect = Inr (exprSql, ea))"
    and xc: "exprClause = (if TrimSpace exprSql \<noteq> [] then '' AND '' @ exprSql else [])"
    unfolding whereExprStep_def
    by (cases "Where q") (auto split: sum.splits prod.splits simp: TrimSpace_Nil)
  define rowFilter where "rowFilter = (case policy of None \<Rightarrow> [] | Some p \<Rightarrow> RowFilter p)"
  have rf: "rowFilterStep policy = (if rowFilter \<noteq> [] then '' AND ('' @ rowFilter @ '')'' else [])"
    unfolding rowFilterStep_def rowFilter_def by (cases policy) simp_all
  have t': "if TimeDimension mv \<noteq> []
            then timeRangeClause h (TimeRange q) mv dialect (safeName h (TimeDimension mv)) args0 = Inr (timePred, a1)
            else timePred = []"
    using t unfolding timeRangeStep_def by (auto split: if_splits)
  have empty: "whereClause c = [] \<longleftrightarrow> timePred = [] \<and> TrimSpace exprSql = [] \<and> rowFilter = []"
    unfolding wc xc rf by auto
  have shape: "whereClause c \<noteq> [] \<longrightarrow>
              whereClause c = ''WHERE 1=1'' @ timePred
                 @ (if TrimSpace exprSql \<noteq> [] then '' AND '' @ exprSql else [])
                 @ (if rowFilter \<noteq> [] then '' AND ('' @ rowFilter @ '')'' else [])"
    unfolding wc xc rf by auto
  show ?thesis
    apply (rule exI[of _ c], rule exI[of _ dimCols], rule exI[of _ groupCols], rule exI[of _ unnests],
           rule exI[of _ args0], rule exI[of _ timePred], rule exI[of _ a1], rule exI[of _ exprSql],
           rule exI[of _ rowFilter])
    using c d t' x empty shape rowFilter_def by simp
qed

theorem where_clause_sentinel_and_order_witness:
  "buildMetricsAggregationSQL exampleHelpers exampleRequest exampleView DialectDuckDB
     (Some \<lparr> RowFilter = ''publisher IS NOT NULL'' \<rparr>)
   = (Inr (''SELECT [domain] as [domain], date_trunc('' @ [CHR 0x27] @ ''day'' @ [CHR 0x27]
            @ '', [timestamp]) as [timestamp], COUNT(*) as [impressions] FROM [ad_bids]  ''
            @ ''WHERE 1=1 AND [timestamp] >= ? AND (domain) IN (?) AND (publisher IS NOT NULL) ''
            @ ''GROUP BY 1, 2  ORDER BY [impressions] DESC NULLS LAST, [domain] NULLS LAST ''
            @ ''LIMIT 100 OFFSET 0'', [NumberValue 0]),
      exampleRequest\<lparr> Limit := Some 100 \<rparr>) \<and>
   (\<exists>c. buildClauses exampleHelpers exampleRequest exampleView DialectDuckDB
           (Some \<lparr> RowFilter = ''publisher IS NOT NULL'' \<rparr>) = (Inr c, exampleRequest\<lparr> Limit := Some 100 \<rparr>) \<and>
        whereClause c = ''WHERE 1=1'' @ '' AND [timestamp] >= ?'' @ '' AND '' @ ''(domain) IN (?)''
                         @ '' AND ('' @ ''publisher IS NOT NULL'' @ '')'') \<and>
   Where exampleBlankWhereRequest = Some [CHR 0x20, CHR 0xC2, CHR 0xA0, CHR 0x09] \<and>
   buildMetricsAggregationSQL exampleHelpers exampleBlankWhereRequest exampleView DialectDuckDB
     (Some \<lparr> RowFilter = ''publisher IS NOT NULL'' \<rparr>)
   = (Inr (''SELECT [domain] as [domain], date_trunc('' @ [CHR 0x27] @ ''day'' @ [CHR 0x27]
            @ '', [timestamp]) as [timestamp], COUNT(*) as [impressions] FROM [ad_bids]  ''
            @ ''WHERE 1=1 AND [timestamp] >= ? AND (publisher IS NOT NULL) ''
            @ ''GROUP BY 1, 2  ORDER BY [impressions] DESC NULLS LAST, [domain] NULLS LAST ''
            @ ''LIMIT 100 OFFSET 0'', [NumberValue 0]),
      exampleBlankWhereRequest\<lparr> Limit := Some 100 \<rparr>) \<and>
   (\<exists>c. buildClauses exampleHelpers exampleBlankWhereRequest exampleView DialectDuckDB
           (Some \<lparr> RowFilter = ''publisher IS NOT NULL'' \<rparr>)
           = (Inr c, exampleBlankWhereRequest\<lparr> Limit := Some 100 \<rparr>) \<and>
        whereClause c = ''WHERE 1=1'' @ '' AND [timestamp] >= ?''
                         @ '' AND ('' @ ''publisher IS NOT NULL'' @ '')'') \<and>
   Where exampleUnfilteredRequest = Some [CHR 0xC2, CHR 0xA0] \<and>
   buildMetricsAggregationSQL exampleHelpers exampleUnfilteredRequest exampleView DialectDuckDB None
   = (Inr (''SELECT [domain] as [domain], date_trunc('' @ [CHR 0x27] @ ''day'' @ [CHR 0x27]
            @ '', [timestamp]) as [timestamp], COUNT(*) as [impressions] FROM [ad_bids]   ''
            @ ''GROUP BY 1, 2  ORDER BY [impressions] DESC NULLS LAST, [domain] NULLS LAST ''
            @ ''LIMIT 100 OFFSET 0'', []),
      exampleUnfilteredRequest\<lparr> Limit := Some 100 \<rparr>) \<and>
   (\<exists>c. buildClauses exampleHelpers exampleUnfilteredRequest exampleView DialectDuckDB None
           = (Inr c, exampleUnfilteredRequest\<lparr> Limit := Some 100 \<rparr>) \<and>
        whereClause c = [])"
proof -
  have v: "TimeDimension exampleView \<noteq> []"
    "Where exampleRequest = Some ''(domain) IN (?)''" "TimeRange exampleRequest = Some ()"
    "Where exampleBlankWhereRequest = Some [CHR 0x20, CHR 0xC2, CHR 0xA0, CHR 0x09]"
    "TimeRange exampleBlankWhereRequest = Some ()"
    "Where exampleUnfilteredRequest = Some [CHR 0xC2, CHR 0xA0]"
    "TimeRange exampleUnfilteredRequest = None"
    by (simp_all add: exampleView_def exampleRequest_def exampleBlankWhereRequest_def
          exampleUnfilteredRequest_def)
  have first: "\<exists>c. buildClauses exampleHelpers exampleRequest exampleView DialectDuckDB
           (Some \<lparr> RowFilter = ''publisher IS NOT NULL'' \<rparr>) = (Inr c, exampleRequest\<lparr> Limit := Some 100 \<rparr>) \<and>
        whereClause c = ''WHERE 1=1'' @ '' AND [timestamp] >= ?'' @ '' AND '' @ ''(domain) IN (?)''
                         @ '' AND ('' @ ''publisher IS NOT NULL'' @ '')''"
  proof -
    from where_clause_sentinel_and_order[OF example_build] obtain c a0 timePred a1 exprSql rowFilter where
      c: "buildClauses exampleHelpers exampleRequest exampleView DialectDuckDB
             (Some \<lparr> RowFilter = ''publisher IS NOT NULL'' \<rparr>) = (Inr c, exampleRequest\<lparr> Limit := Some 100 \<rparr>)"
      and t: "if TimeDimension exampleView \<noteq> []
              then timeRangeClause exampleHelpers (TimeRange exampleRequest) exampleView DialectDuckDB
                     (safeName exampleHelpers (TimeDimension exampleView)) a0 = Inr (timePred, a1)
              else timePred = []"
      and x: "case Where exampleRequest of None \<Rightarrow> exprSql = []
              | Some ex \<Rightarrow> (\<exists>ea. buildExpression exampleHelpers exampleView ex DialectDuckDB = Inr (exprSql, ea))"
      and r: "rowFilter = (case Some \<lparr> RowFilter = ''publisher IS NOT NULL'' \<rparr> of None \<Rightarrow> [] | Some p \<Rightarrow> RowFilter p)"
      and e: "whereClause c = [] \<longleftrightarrow> timePred = [] \<and> TrimSpace exprSql = [] \<and> rowFilter = []"
      and s: "whereClause c \<noteq> [] \<longrightarrow>
                whereClause c = ''WHERE 1=1'' @ timePred
                   @ (if TrimSpace exprSql \<noteq> [] then '' AND '' @ exprSql else [])
                   @ (if rowFilter \<noteq> [] then '' AND ('' @ rowFilter @ '')'' else [])"
      by blast
    from t v have tp: "timePred = '' AND [timestamp] >= ?''"
      by (simp add: exampleHelpers_def exampleView_def)
    from x v have xs: "exprSql = ''(domain) IN (?)''"
      by (simp add: exampleHelpers_def)
    from r have rf: "rowFilter = ''publisher IS NOT NULL''" by simp
    have ts: "TrimSpace exprSql \<noteq> []" unfolding xs TrimSpace_examples(1) by simp
    from e s tp xs rf ts have "whereClause c = ''WHERE 1=1'' @ '' AND [timestamp] >= ?'' @ '' AND '' @ ''(domain) IN (?)''
                           @ '' AND ('' @ ''publisher IS NOT NULL'' @ '')''"
      by auto
    with c show ?thesis by blast
  qed
  have second: "\<exists>c. buildClauses exampleHelpers exampleBlankWhereRequest exampleView DialectDuckDB
           (Some \<lparr> RowFilter = ''publisher IS NOT NULL'' \<rparr>)
           = (Inr c, exampleBlankWhereRequest\<lparr> Limit := Some 100 \<rparr>) \<and>
        whereClause c = ''WHERE 1=1'' @ '' AND [timestamp] >= ?''
                         @ '' AND ('' @ ''publisher IS NOT NULL'' @ '')''"
  proof -
    from where_clause_sentinel_and_order[OF example_build_blank_where]
    obtain c a0 timePred a1 exprSql rowFilter where
      c: "buildClauses exampleHelpers exampleBlankWhereRequest exampleView DialectDuckDB
             (Some \<lparr> RowFilter = ''publisher IS NOT NULL'' \<rparr>)
             = (Inr c, exampleBlankWhereRequest\<lparr> Limit := Some 100 \<rparr>)"
      and t: "if TimeDimension exampleView \<noteq> []
              then timeRangeClause exampleHelpers (TimeRange exampleBlankWhereRequest) exampleView DialectDuckDB
                     (safeName exampleHelpers (TimeDimension exampleView)) a0 = Inr (timePred, a1)
              else timePred = []"
      and x: "case Where exampleBlankWhereRequest of None \<Rightarrow> exprSql = []
              | Some ex \<Rightarrow> (\<exists>ea. buildExpression exampleHelpers exampleView ex DialectDuckDB = Inr (exprSql, ea))"
      and r: "rowFilter = (case Some \<lparr> RowFilter = ''publisher IS NOT NULL'' \<rparr> of None \<Rightarrow> [] | Some p \<Rightarrow> RowFilter p)"
      and e: "whereClause c = [] \<longleftrightarrow> timePred = [] \<and> TrimSpace exprSql = [] \<and> rowFilter = []"
      and s: "whereClause c \<noteq> [] \<longrightarrow>
                whereClause c = ''WHERE 1=1'' @ timePred
                   @ (if TrimSpace exprSql \<noteq> [] then '' AND '' @ exprSql else [])
                   @ (if rowFilter \<noteq> [] then '' AND ('' @ rowFilter @ '')'' else [])"
      by blast
    from t v have tp: "timePred = '' AND [timestamp] >= ?''"
      by (simp add: exampleHelpers_def exampleView_def)
    from x v have xs: "exprSql = [CHR 0x20, CHR 0xC2, CHR 0xA0, CHR 0x09]"
      by (simp add: exampleHelpers_def)
    from r have rf: "rowFilter = ''publisher IS NOT NULL''" by simp
    have ts: "TrimSpace exprSql = []" unfolding xs by (rule TrimSpace_examples(2))
    from e s tp rf ts have "whereClause c = ''WHERE 1=1'' @ '' AND [timestamp] >= ?''
                           @ '' AND ('' @ ''publisher IS NOT NULL'' @ '')''"
      by auto
    with c show ?thesis by blast
  qed
  have third: "\<exists>c. buildClauses exampleHelpers exampleUnfilteredRequest exampleView DialectDuckDB None
           = (Inr c, exampleUnfilteredRequest\<lparr> Limit := Some 100 \<rparr>) \<and>
        whereClause c = []"
  proof -
    from where_clause_sentinel_and_order[OF example_build_unfiltered]
    obtain c a0 timePred a1 exprSql rowFilter where
      c: "buildClauses exampleHelpers exampleUnfilteredRequest exampleView DialectDuckDB None
             = (Inr c, exampleUnfilteredRequest\<lparr> Limit := Some 100 \<rparr>)"
      and t: "if TimeDimension exampleView \<noteq> []
              then timeRangeClause exampleHelpers (TimeRange exampleUnfilteredRequest) exampleView DialectDuckDB
                     (safeName exampleHelpers (TimeDimension exampleView)) a0 = Inr (timePred, a1)
              else timePred = []"
      and x: "case Where exampleUnfilteredRequest of None \<Rightarrow> exprSql = []
              | Some ex \<Rightarrow> (\<exists>ea. buildExpression exampleHelpers exampleView ex DialectDuckDB = Inr (exprSql, ea))"
      and r: "rowFilter = (case (None :: ResolvedMetricsViewSecurity option) of None \<Rightarrow> [] | Some p \<Rightarrow> RowFilter p)"
      and e: "whereClause c = [] \<longleftrightarrow> timePred = [] \<and> TrimSpace exprSql = [] \<and> rowFilter = []"
      by blast
    from t v have tp: "timePred = []"
      by (simp add: exampleHelpers_def exampleView_def)
    from x v have xs: "exprSql = [CHR 0xC2, CHR 0xA0]"
      by (simp add: exampleHelpers_def)
    from r have rf: "rowFilter = []" by simp
    have ts: "TrimSpace exprSql = []" unfolding xs by (rule TrimSpace_examples(3))
    from e tp rf ts have "whereClause c = []" by simp
    with c show ?thesis by blast
  qed
  from example_build first v(4) example_build_blank_where second v(6) example_build_unfiltered third
  show ?thesis by (intro conjI)
qed

text \<open>
  C8. For a request without a pivot axis whose build succeeds: a limit of 0 is
  overwritten with 100 and the LIMIT clause of the compiled SQL is \<open>LIMIT 100\<close>; with
  no limit the LIMIT clause is empty. The clause stands between the ORDER BY clause and
  the OFFSET.
\<close>

theorem zero_limit_normalised_to_100:
  assumes "PivotOn q = []"
    and "buildMetricsAggregationSQL h q mv dialect policy = (Inr (sql, args), q')"
  shows "\<exists>c. buildClauses h q mv dialect policy = (Inr c, q') \<and>
           sql = ''SELECT '' @ Join (selectCols c) '', '' @ '' FROM '' @ safeName h (Table mv) @ '' ''
                 @ Join (unnestClauses c) [] @ '' '' @ whereClause c @ '' '' @ groupClause c @ '' ''
                 @ havingClause c @ '' '' @ orderClause c @ '' '' @ limitClause c
                 @ '' OFFSET '' @ fmt_d (Offset q) \<and>
           (Limit q = Some 0 \<longrightarrow> Limit q' = Some 100 \<and> limitClause c = ''LIMIT 100'') \<and>
           (Limit q = None \<longrightarrow> Limit q' = None \<and> limitClause c = [])"
proof -
  from assms(2) obtain c where c: "buildClauses h q mv dialect policy = (Inr c, q')"
    "sql = renderSQL h mv (PivotOn q \<noteq> []) (Offset q) c"
    by (rule build_Inr)
  from c(1) assms(1) obtain limitC where l: "limitStep q = (limitC, q')" "limitClause c = limitC"
    by (elim buildClauses_Inr) simp
  have z: "Limit q = Some 0 \<longrightarrow> Limit q' = Some 100 \<and> limitClause c = ''LIMIT 100''"
    using l by (auto simp: limitStep_def fmt_d_100)
  have n: "Limit q = None \<longrightarrow> Limit q' = None \<and> limitClause c = []"
    using l by (auto simp: limitStep_def)
  show ?thesis
    apply (rule exI[of _ c])
    using c z n assms(1) by (simp add: renderSQL_def)
qed

theorem zero_limit_normalised_to_100_witness:
  "PivotOn exampleRequest = [] \<and> Limit exampleRequest = Some 0 \<and>
   buildMetricsAggregationSQL exampleHelpers exampleRequest exampleView DialectDuckDB
     (Some \<lparr> RowFilter = ''publisher IS NOT NULL'' \<rparr>)
   = (Inr (''SELECT [domain] as [domain], date_trunc('' @ [CHR 0x27] @ ''day'' @ [CHR 0x27]
            @ '', [timestamp]) as [timestamp], COUNT(*) as [impressions] FROM [ad_bids]  ''
            @ ''WHERE 1=1 AND [timestamp] >= ? AND (domain) IN (?) AND (publisher IS NOT NULL) ''
            @ ''GROUP BY 1, 2  ORDER BY [impressions] DESC NULLS LAST, [domain] NULLS LAST ''
            @ ''LIMIT 100 OFFSET 0'', [NumberValue 0]),
      exampleRequest\<lparr> Limit := Some 100 \<rparr>) \<and>
   (\<exists>c. buildClauses exampleHelpers exampleRequest exampleView DialectDuckDB
           (Some \<lparr> RowFilter = ''publisher IS NOT NULL'' \<rparr>) = (Inr c, exampleRequest\<lparr> Limit := Some 100 \<rparr>) \<and>
        limitClause c = ''LIMIT 100'')"
proof -
  have p: "PivotOn exampleRequest = []" "Limit exampleRequest = Some 0"
    by (simp_all add: exampleRequest_def)
  from zero_limit_normalised_to_100[OF p(1) example_build] p example_build
  show ?thesis by auto
qed

text \<open>
  C9. For a request whose build succeeds, the ORDER BY clause lists the sort terms in
  their order; each is the quoted name, then \<open>DESC\<close> for a descending sort, then
  \<open>NULLS LAST\<close> when the dialect is DuckDB and nothing when it is Druid.
\<close>

theorem order_by_null_ordering_suffix:
  assumes "buildMetricsAggregationSQL h q mv dialect policy = (Inr (sql, args), q')"
  shows "\<exists>c. buildClauses h q mv dialect policy = (Inr c, q') \<and>
           sql = renderSQL h mv (PivotOn q \<noteq> []) (Offset q) c \<and>
           (Sort q = [] \<longrightarrow> orderClause c = []) \<and>
           (Sort q \<noteq> [] \<and> dialect = DialectDuckDB \<longrightarrow>
              orderClause c = ''ORDER BY '' @ Join (map (\<lambda>s. safeName h (s_Name s)
                                 @ (if s_Desc s then '' DESC'' else []) @ '' NULLS LAST'') (Sort q)) '', '') \<and>
           (Sort q \<noteq> [] \<and> dialect = DialectDruid \<longrightarrow>
              orderClause c = ''ORDER BY '' @ Join (map (\<lambda>s. safeName h (s_Name s)
                                 @ (if s_Desc s then '' DESC'' else [])) (Sort q)) '', '')"
proof -
  from assms obtain c where c: "buildClauses h q mv dialect policy = (Inr c, q')"
    "sql = renderSQL h mv (PivotOn q \<noteq> []) (Offset q) c"
    by (rule build_Inr)
  from c(1) have o: "orderClause c = orderStep h dialect (Sort q)"
    by (elim buildClauses_Inr) simp
  have duck: "sortCriterion h DialectDuckDB
              = (\<lambda>s. safeName h (s_Name s) @ (if s_Desc s then '' DESC'' else []) @ '' NULLS LAST'')"
    by (rule ext) (simp add: sortCriterion_def)
  have druid: "sortCriterion h DialectDruid
              = (\<lambda>s. safeName h (s_Name s) @ (if s_Desc s then '' DESC'' else []))"
    by (rule ext) (simp add: sortCriterion_def)
  have e: "Sort q = [] \<longrightarrow> orderClause c = []"
    unfolding o orderStep_def by simp
  have d1: "Sort q \<noteq> [] \<and> dialect = DialectDuckDB \<longrightarrow>
              orderClause c = ''ORDER BY '' @ Join (map (\<lambda>s. safeName h (s_Name s)
                                 @ (if s_Desc s then '' DESC'' else []) @ '' NULLS LAST'') (Sort q)) '', ''"
    unfolding o orderStep_def Let_def using duck by simp
  have d2: "Sort q \<noteq> [] \<and> dialect = DialectDruid \<longrightarrow>
              orderClause c = ''ORDER BY '' @ Join (map (\<lambda>s. safeName h (s_Name s)
                                 @ (if s_Desc s then '' DESC'' else [])) (Sort q)) '', ''"
    unfolding o orderStep_def Let_def using druid by simp
  show ?thesis
    using c e d1 d2 by blast
qed

theorem order_by_null_ordering_suffix_witness:
  "buildMetricsAggregationSQL exampleHelpers exampleRequest exampleView DialectDuckDB
     (Some \<lparr> RowFilter = ''publisher IS NOT NULL'' \<rparr>)
   = (Inr (''SELECT [domain] as [domain], date_trunc('' @ [CHR 0x27] @ ''day'' @ [CHR 0x27]
            @ '', [timestamp]) as [timestamp], COUNT(*) as [impressions] FROM [ad_bids]  ''
            @ ''WHERE 1=1 AND [timestamp] >= ? AND (domain) IN (?) AND (publisher IS NOT NULL) ''
            @ ''GROUP BY 1, 2  ORDER BY [impressions] DESC NULLS LAST, [domain] NULLS LAST ''
            @ ''LIMIT 100 OFFSET 0'', [NumberValue 0]),
      exampleRequest\<lparr> Limit := Some 100 \<rparr>) \<and>
   (\<exists>c. buildClauses exampleHelpers exampleRequest exampleView DialectDuckDB
           (Some \<lparr> RowFilter = ''publisher IS NOT NULL'' \<rparr>) = (Inr c, exampleRequest\<lparr> Limit := Some 100 \<rparr>) \<and>
        orderClause c = ''ORDER BY [impressions] DESC NULLS LAST, [domain] NULLS LAST'')"
proof -
  have s: "Sort exampleRequest \<noteq> []"
    by (simp add: exampleRequest_def)
  have j: "''ORDER BY '' @ Join (map (\<lambda>s. safeName exampleHelpers (s_Name s)
              @ (if s_Desc s then '' DESC'' else []) @ '' NULLS LAST'') (Sort exampleRequest)) '', ''
           = ''ORDER BY [impressions] DESC NULLS LAST, [domain] NULLS LAST''"
    by (simp add: exampleRequest_def exampleHelpers_def)
  from order_by_null_ordering_suffix[OF example_build] s j example_build
  show ?thesis by auto
qed

subsection \<open>The side effect on the request\<close>

text \<open>
  C10, as claimed: whenever the limit of the request points to 0, the builder overwrites
  it with 100. It does not when it returns before the limit step: a request with neither
  dimensions nor measures is rejected at the first check, and its limit is still 0.
\<close>

theorem build_overwrites_zero_limit_counterexample:
  "Limit exampleEmptyRequest = Some 0 \<and>
   buildMetricsAggregationSQL exampleHelpers exampleEmptyRequest exampleView DialectDuckDB None
     = (Inl NoDimensionsOrMeasures, exampleEmptyRequest) \<and>
   Limit (snd (buildMetricsAggregationSQL exampleHelpers exampleEmptyRequest exampleView DialectDuckDB None))
     \<noteq> Some 100"
  by (simp add: exampleEmptyRequest_def exampleRequest_def buildMetricsAggregationSQL_def buildClauses_def)

text \<open>
  C10, amended. \<^verbatim>\<open>createPivotSQL\<close> returns the request with a limit of 0 overwritten
  by 100 and nothing else changed. \<^verbatim>\<open>buildMetricsAggregationSQL\<close> returns the
  request with exactly that overwrite when it gets as far as its limit step, which every
  successful build does, and returns it unchanged otherwise. When the JSON encoding tells
  requests with different limits apart, the cache key of a request with limit 0 differs
  after the overwrite.
\<close>

theorem limit_overwrite_is_the_only_side_effect:
  "snd (createPivotSQL h q name) = q\<lparr>Limit := (if Limit q = Some 0 then Some 100 else Limit q)\<rparr> \<and>
   snd (buildMetricsAggregationSQL h q mv dialect policy)
     = (if reachesLimitStep h q mv dialect policy
        then q\<lparr>Limit := (if Limit q = Some 0 then Some 100 else Limit q)\<rparr> else q) \<and>
   ((\<exists>x. fst (buildMetricsAggregationSQL h q mv dialect policy) = Inr x)
      \<longrightarrow> reachesLimitStep h q mv dialect policy) \<and>
   ((\<forall>a b s. marshal a = Inr s \<longrightarrow> marshal b = Inr s \<longrightarrow> Limit a = Limit b) \<longrightarrow>
    Limit q = Some 0 \<longrightarrow>
      (\<forall>k. Key marshal q = Inr k \<longrightarrow> Key marshal (q\<lparr>Limit := Some 100\<rparr>) \<noteq> Inr k))"
proof -
  have p: "snd (createPivotSQL h q name) = q\<lparr>Limit := (if Limit q = Some 0 then Some 100 else Limit q)\<rparr>"
  proof -
    obtain lc ql where l: "limitStep q = (lc, ql)" by (cases "limitStep q")
    with limitStep_frame[of q]
    have "ql = q\<lparr>Limit := (if Limit q = Some 0 then Some 100 else Limit q)\<rparr>" by simp
    then show ?thesis unfolding createPivotSQL_def by (simp add: Let_def l)
  qed
  have b: "snd (buildMetricsAggregationSQL h q mv dialect policy) = snd (buildClauses h q mv dialect policy)"
    unfolding buildMetricsAggregationSQL_def by (simp split: prod.splits sum.splits)
  have f: "snd (buildMetricsAggregationSQL h q mv dialect policy)
     = (if reachesLimitStep h q mv dialect policy
        then q\<lparr>Limit := (if Limit q = Some 0 then Some 100 else Limit q)\<rparr> else q)"
    unfolding b buildClauses_request limitStep_frame by (rule refl)
  have s: "reachesLimitStep h q mv dialect policy"
    if "fst (buildMetricsAggregationSQL h q mv dialect policy) = Inr x" for x
  proof -
    obtain sql args where x: "x = (sql, args)" by (cases x)
    have "buildMetricsAggregationSQL h q mv dialect policy
          = (Inr (sql, args), snd (buildMetricsAggregationSQL h q mv dialect policy))"
      using that x by (simp add: prod_eq_iff)
    then obtain c where "buildClauses h q mv dialect policy
          = (Inr c, snd (buildMetricsAggregationSQL h q mv dialect policy))"
      by (rule build_Inr)
    then show ?thesis by (rule buildClauses_success_reaches)
  qed
  have k: "Key marshal (q\<lparr>Limit := Some 100\<rparr>) \<noteq> Inr k"
    if inj: "\<forall>a b s. marshal a = Inr s \<longrightarrow> marshal b = Inr s \<longrightarrow> Limit a = Limit b"
      and z: "Limit q = Some 0" and kq: "Key marshal q = Inr k" for k
  proof
    assume kq': "Key marshal (q\<lparr>Limit := Some 100\<rparr>) = Inr k"
    from kq obtain s where s: "marshal q = Inr s" "k = ''MetricsViewAggregation:'' @ s"
      unfolding Key_def by (auto split: sum.splits)
    from kq' obtain s' where s': "marshal (q\<lparr>Limit := Some 100\<rparr>) = Inr s'" "k = ''MetricsViewAggregation:'' @ s'"
      unfolding Key_def by (auto split: sum.splits)
    from s(2) s'(2) have "s' = s" by simp
    with inj s(1) s'(1) have "Limit q = Limit (q\<lparr>Limit := Some 100\<rparr>)" by blast
    with z show False by simp
  qed
  have sp: "(\<exists>x. fst (buildMetricsAggregationSQL h q mv dialect policy) = Inr x)
      \<longrightarrow> reachesLimitStep h q mv dialect policy"
    using s by blast
  have kp: "(\<forall>a b s. marshal a = Inr s \<longrightarrow> marshal b = Inr s \<longrightarrow> Limit a = Limit b) \<longrightarrow>
    Limit q = Some 0 \<longrightarrow>
      (\<forall>k. Key marshal q = Inr k \<longrightarrow> Key marshal (q\<lparr>Limit := Some 100\<rparr>) \<noteq> Inr k)"
    by (intro impI allI) (rule k)
  from p f sp kp show ?thesis by (intro conjI)
qed

theorem limit_overwrite_is_the_only_side_effect_witness:
  "Limit exampleRequest = Some 0 \<and>
   snd (createPivotSQL exampleHelpers exampleRequest ''t'') = exampleRequest\<lparr>Limit := Some 100\<rparr> \<and>
   buildMetricsAggregationSQL exampleHelpers exampleRequest exampleView DialectDuckDB
     (Some \<lparr> RowFilter = ''publisher IS NOT NULL'' \<rparr>)
   = (Inr (''SELECT [domain] as [domain], date_trunc('' @ [CHR 0x27] @ ''day'' @ [CHR 0x27]
            @ '', [timestamp]) as [timestamp], COUNT(*) as [impressions] FROM [ad_bids]  ''
            @ ''WHERE 1=1 AND [timestamp] >= ? AND (domain) IN (?) AND (publisher IS NOT NULL) ''
            @ ''GROUP BY 1, 2  ORDER BY [impressions] DESC NULLS LAST, [domain] NULLS LAST ''
            @ ''LIMIT 100 OFFSET 0'', [NumberValue 0]),
      exampleRequest\<lparr> Limit := Some 100 \<rparr>) \<and>
   reachesLimitStep exampleHelpers exampleRequest exampleView DialectDuckDB
     (Some \<lparr> RowFilter = ''publisher IS NOT NULL'' \<rparr>) \<and>
   Key exampleMarshal exampleRequest = Inr ''MetricsViewAggregation:{limit:0}'' \<and>
   Key exampleMarshal (exampleRequest\<lparr>Limit := Some 100\<rparr>) \<noteq> Inr ''MetricsViewAggregation:{limit:0}''"
proof -
  have l: "Limit exampleRequest = Some 0"
    by (simp add: exampleRequest_def)
  have inj: "\<forall>a b s. exampleMarshal a = Inr s \<longrightarrow> exampleMarshal b = Inr s \<longrightarrow> Limit a = Limit b"
    using exampleMarshal_tells_limits_apart by blast
  have k: "Key exampleMarshal exampleRequest = Inr ''MetricsViewAggregation:{limit:0}''"
    by code_simp
  note t = limit_overwrite_is_the_only_side_effect[of exampleHelpers exampleRequest "''t''" exampleView
         DialectDuckDB "Some \<lparr> RowFilter = ''publisher IS NOT NULL'' \<rparr>" exampleMarshal]
  from t l have c: "snd (createPivotSQL exampleHelpers exampleRequest ''t'') = exampleRequest\<lparr>Limit := Some 100\<rparr>"
    by simp
  from t example_build have r: "reachesLimitStep exampleHelpers exampleRequest exampleView DialectDuckDB
     (Some \<lparr> RowFilter = ''publisher IS NOT NULL'' \<rparr>)"
    by simp
  from t inj l k have d: "Key exampleMarshal (exampleRequest\<lparr>Limit := Some 100\<rparr>) \<noteq> Inr ''MetricsViewAggregation:{limit:0}''"
    by blast
  from l c example_build r k d show ?thesis by (intro conjI)
qed

end
